theory Spec2Isabelle
  imports Complex_Main "HOL-Library.AList"
begin

section \<open>Text\<close>

text \<open>
  A Python \<open>str\<close> is a sequence of Unicode code points; it is modelled as a list of
  natural numbers. ASCII literals are written through \<open>asc\<close>; the Chinese literals of
  the program are written out as code points.
\<close>

type_synonym ustr = "nat list"

definition asc :: "string \<Rightarrow> ustr" where
  "asc s = map of_char s"

text \<open>\<open>str.isspace\<close> on one code point, the set that \<open>str.strip()\<close> removes.\<close>

definition isspace :: "nat \<Rightarrow> bool" where
  "isspace c =
     ((9 \<le> c \<and> c \<le> 13) \<or> (28 \<le> c \<and> c \<le> 32) \<or> c = 0x85 \<or> c = 0xA0 \<or> c = 0x1680 \<or>
      (0x2000 \<le> c \<and> c \<le> 0x200A) \<or> c = 0x2028 \<or> c = 0x2029 \<or> c = 0x202F \<or>
      c = 0x205F \<or> c = 0x3000)"

definition strip :: "ustr \<Rightarrow> ustr" where
  "strip s = rev (dropWhile isspace (rev (dropWhile isspace s)))"

text \<open>
  \<open>str.lower()\<close>. The program only ever tests a lower-cased text for the occurrence of
  a keyword or for equality with a placeholder, and those are made of ASCII characters
  and CJK ideographs. The code points whose lower-case form contains such a character
  are the ASCII capitals, U+0130 (which lowers to \<open>i\<close> followed by U+0307) and U+212A
  (which lowers to \<open>k\<close>); every other code point lowers to code points outside that
  alphabet and is kept as it is here.
\<close>

definition lower_cp :: "nat \<Rightarrow> ustr" where
  "lower_cp c =
     (if 0x41 \<le> c \<and> c \<le> 0x5A then [c + 32]
      else if c = 0x130 then [0x69, 0x307]
      else if c = 0x212A then [0x6B]
      else [c])"

definition lower :: "ustr \<Rightarrow> ustr" where
  "lower s = concat (map lower_cp s)"

text \<open>\<open>s.replace(",", "")\<close>\<close>

definition remove_commas :: "ustr \<Rightarrow> ustr" where
  "remove_commas s = filter (\<lambda>c. c \<noteq> 0x2C) s"

text \<open>\<open>k in s\<close> on strings: \<open>k\<close> occurs in \<open>s\<close> as a contiguous run.\<close>

fun has_prefix :: "ustr \<Rightarrow> ustr \<Rightarrow> bool" where
  "has_prefix [] s = True"
| "has_prefix (k # ks) [] = False"
| "has_prefix (k # ks) (c # cs) = (k = c \<and> has_prefix ks cs)"

fun contains :: "ustr \<Rightarrow> ustr \<Rightarrow> bool" where
  "contains k [] = (k = [])"
| "contains k (c # cs) = (has_prefix k (c # cs) \<or> contains k cs)"

text \<open>\<open>sep.join(xs)\<close>\<close>

fun join :: "ustr \<Rightarrow> ustr list \<Rightarrow> ustr" where
  "join sep [] = []"
| "join sep [x] = x"
| "join sep (x # y # ys) = x @ sep @ join sep (y # ys)"

text \<open>\<open>str(n)\<close> for an integer: its decimal digits, with a minus sign when negative.\<close>

fun digits_of :: "nat \<Rightarrow> ustr" where
  "digits_of n = (if n < 10 then [48 + n] else digits_of (n div 10) @ [48 + n mod 10])"

declare digits_of.simps [simp del]

definition str_int :: "int \<Rightarrow> ustr" where
  "str_int i = (if i < 0 then 0x2D # digits_of (nat (- i)) else digits_of (nat i))"

subsection \<open>Regular expressions of the program\<close>

text \<open>
  \<open>\d\<close> in a \<open>str\<close> pattern matches every Unicode decimal digit. The table lists the
  zero of each block of ten decimal digits (Unicode 14).
\<close>

definition digit_zeros :: "nat list" where
  "digit_zeros =
    [48, 1632, 1776, 1984, 2406, 2534, 2662, 2790, 2918, 3046, 3174, 3302, 3430, 3558,
     3664, 3792, 3872, 4160, 4240, 6112, 6160, 6470, 6608, 6784, 6800, 6992, 7088, 7232,
     7248, 42528, 43216, 43264, 43472, 43504, 43600, 44016, 65296, 66720, 68912, 69734,
     69872, 69942, 70096, 70384, 70736, 70864, 71248, 71360, 71472, 71904, 72016, 72784,
     73040, 73120, 92768, 92864, 93008, 120782, 120792, 120802, 120812, 120822, 123200,
     123632, 125264, 130032]"

definition is_digit :: "nat \<Rightarrow> bool" where
  "is_digit c =
     (if c < 128 then 48 \<le> c \<and> c \<le> 57
      else list_ex (\<lambda>z. z \<le> c \<and> c \<le> z + 9) digit_zeros)"

text \<open>
  Matching under \<open>re.I\<close>: \<open>ic_letter p c\<close> says that the code point \<open>c\<close> matches the
  capital ASCII letter \<open>p\<close> of the pattern. Besides the two cases of the letter, the
  matcher accepts U+0130 and U+0131 for \<open>I\<close>, U+017F for \<open>S\<close> and U+212A for \<open>K\<close>.
\<close>

definition ic_letter :: "nat \<Rightarrow> nat \<Rightarrow> bool" where
  "ic_letter p c =
     (c = p \<or> c = p + 32 \<or> (p = 0x49 \<and> (c = 0x130 \<or> c = 0x131)) \<or>
      (p = 0x53 \<and> c = 0x17F) \<or> (p = 0x4B \<and> c = 0x212A))"

text \<open>The class \<open>[A-Z]\<close> under \<open>re.I\<close>.\<close>

definition ic_A_Z :: "nat \<Rightarrow> bool" where
  "ic_A_Z c =
     ((0x41 \<le> c \<and> c \<le> 0x5A) \<or> (0x61 \<le> c \<and> c \<le> 0x7A) \<or>
      c = 0x130 \<or> c = 0x131 \<or> c = 0x17F \<or> c = 0x212A)"

text \<open>
  \<open>order_no_pattern = re.compile(r'XIDP-[A-Z]?\d{10,12}', re.I)\<close>.
  \<open>order_no_match s\<close> is the match of the pattern anchored at the start of \<open>s\<close>: the
  five characters \<open>XIDP-\<close> in either case, one optional letter, then the longest run of
  ten to twelve digits (the quantifiers are greedy; letters and digits are disjoint, so
  no backtracking changes the result). The match is the matched text itself, in the
  casing of the input.
\<close>

definition order_no_match :: "ustr \<Rightarrow> ustr option" where
  "order_no_match s =
     (case s of
        x # i # d # p # h # r \<Rightarrow>
          if ic_letter 0x58 x \<and> ic_letter 0x49 i \<and> ic_letter 0x44 d \<and> ic_letter 0x50 p \<and>
             h = 0x2D
          then
            let l = (case r of [] \<Rightarrow> 0 | c # _ \<Rightarrow> if ic_A_Z c then 1 else (0::nat));
                n = length (takeWhile is_digit (drop l r))
            in if 10 \<le> n then Some (take (5 + l + min 12 n) s) else None
          else None
      | _ \<Rightarrow> None)"

text \<open>\<open>pattern.search(s)\<close> followed by \<open>group(0)\<close>: the leftmost match, \<open>None\<close> if none.\<close>

fun order_no_search :: "ustr \<Rightarrow> ustr option" where
  "order_no_search [] = None"
| "order_no_search (c # cs) =
     (case order_no_match (c # cs) of
        Some m \<Rightarrow> Some m
      | None \<Rightarrow> order_no_search cs)"

text \<open>
  \<open>re.search(r'(\d{4}[-/]\d{1,2}[-/]\d{1,2})', s)\<close>. \<open>sep_digits r\<close> is the length of
  the greedy match of \<open>[-/]\d{1,2}\<close> at the start of \<open>r\<close>. Giving back the second digit
  of the middle group never helps, since a separator would then have to match that
  digit.
\<close>

definition sep_digits :: "ustr \<Rightarrow> nat option" where
  "sep_digits r =
     (case r of
        [] \<Rightarrow> None
      | c # r' \<Rightarrow>
          if c = 0x2D \<or> c = 0x2F then
            (let n = length (takeWhile is_digit (take 2 r'))
             in if 1 \<le> n then Some (1 + n) else None)
          else None)"

definition date_match :: "ustr \<Rightarrow> ustr option" where
  "date_match s =
     (if length (takeWhile is_digit (take 4 s)) = 4 then
        (case sep_digits (drop 4 s) of
           None \<Rightarrow> None
         | Some a \<Rightarrow>
             (case sep_digits (drop (4 + a) s) of
                None \<Rightarrow> None
              | Some b \<Rightarrow> Some (take (4 + a + b) s)))
      else None)"

fun date_search :: "ustr \<Rightarrow> ustr option" where
  "date_search [] = None"
| "date_search (c # cs) =
     (case date_match (c # cs) of
        Some m \<Rightarrow> Some m
      | None \<Rightarrow> date_search cs)"

section \<open>Values and the floating-point library\<close>

text \<open>
  The values that the program stores in a row dictionary: \<open>None\<close>, a string, an
  integer or a float.
\<close>

datatype 'f pyval = PNone | PStr ustr | PInt int | PFloat 'f

text \<open>
  Python floats are not modelled bit by bit. The operations of the interpreter that
  the program applies to floats are the fields of a record, and every function below
  that computes with floats takes that record; the theorems hold for whatever these
  operations are. \<open>float_of_str s\<close> is \<open>float(s)\<close>, with \<open>None\<close> when the interpreter
  raises \<open>ValueError\<close>.
\<close>

record 'f pyfloat =
  float_of_str :: "ustr \<Rightarrow> 'f option"
  float_zero :: "'f"
  float_mul :: "'f \<Rightarrow> 'f \<Rightarrow> 'f"
  float_round2 :: "'f \<Rightarrow> 'f"
  float_is_integer :: "'f \<Rightarrow> bool"
  float_to_int :: "'f \<Rightarrow> int"
  float_str :: "'f \<Rightarrow> ustr"

text \<open>\<open>str(x)\<close> on a value.\<close>

definition py_str :: "'f pyfloat \<Rightarrow> 'f pyval \<Rightarrow> ustr" where
  "py_str L x =
     (case x of
        PNone \<Rightarrow> asc ''None''
      | PStr s \<Rightarrow> s
      | PInt i \<Rightarrow> str_int i
      | PFloat v \<Rightarrow> float_str L v)"

section \<open>Configuration and helper functions\<close>

text \<open>
  \<open>UNIT_MAP\<close>, in declaration order. The keys are U+500B, U+500B \<open>/pcs\<close>, U+81FA,
  U+81FA \<open>/\<close> U+53F0, U+516C U+65A4, U+5343 U+514B, \<open>g\<close>, and U+516C U+65A4 \<open>/\<close>
  U+516C U+65A4.
\<close>

definition UNIT_MAP :: "(ustr \<times> ustr) list" where
  "UNIT_MAP =
    [([0x500B], [0x4E2A]),
     ([0x500B] @ asc ''/pcs'', [0x4E2A]),
     ([0x81FA], [0x53F0]),
     ([0x81FA, 0x2F, 0x53F0], [0x53F0]),
     ([0x516C, 0x65A4], asc ''kg''),
     ([0x5343, 0x514B], asc ''kg''),
     (asc ''g'', asc ''g''),
     ([0x516C, 0x65A4, 0x2F, 0x516C, 0x65A4], asc ''kg'')]"

text \<open>
  \<open>safe_float\<close>. The body of the \<open>try\<close> block either returns a float or raises; the
  bare \<open>except\<close> turns every exception into \<open>0.0\<close>.
\<close>

datatype exn = ValueError

definition safe_float_try :: "'f pyfloat \<Rightarrow> 'f pyval \<Rightarrow> exn + 'f" where
  "safe_float_try L x =
     (if x = PNone \<or> strip (py_str L x) = [] then Inr (float_zero L)
      else
        (let s = remove_commas (strip (py_str L x))
         in case float_of_str L s of
              None \<Rightarrow> Inl ValueError
            | Some v \<Rightarrow> Inr v))"

definition safe_float :: "'f pyfloat \<Rightarrow> 'f pyval \<Rightarrow> 'f" where
  "safe_float L x =
     (case safe_float_try L x of
        Inl e \<Rightarrow> float_zero L
      | Inr v \<Rightarrow> v)"

section \<open>OrderProcessor\<close>

text \<open>
  The names of the fields, as code points:
  \<open>f_seq\<close> sequence number, \<open>f_name\<close> item name, \<open>f_spec\<close> specification / drawing
  number, \<open>f_unit\<close> unit, \<open>f_qty\<close> quantity, \<open>f_price\<close> unit price, \<open>f_amount\<close> amount,
  \<open>f_remark\<close> remarks / unit weight, \<open>f_inquirer\<close> inquirer, \<open>f_agent\<close> purchasing
  agent.
\<close>

definition f_seq :: ustr where "f_seq = [0x5E8F, 0x53F7]"
definition f_name :: ustr where "f_name = [0x54C1, 0x540D]"
definition f_spec :: ustr where "f_spec = [0x89C4, 0x683C, 0x2F, 0x56FE, 0x53F7]"
definition f_unit :: ustr where "f_unit = [0x5355, 0x4F4D]"
definition f_qty :: ustr where "f_qty = [0x6570, 0x91CF]"
definition f_price :: ustr where "f_price = [0x5355, 0x4EF7]"
definition f_amount :: ustr where "f_amount = [0x91D1, 0x989D]"
definition f_remark :: ustr where
  "f_remark = [0x5907, 0x6CE8, 0x2F, 0x672C, 0x4F53, 0x5355, 0x91CD]"
definition f_inquirer :: ustr where "f_inquirer = [0x8BE2, 0x4EF7, 0x4EBA]"
definition f_agent :: ustr where "f_agent = [0x4EE3, 0x8D2D, 0x5382, 0x5546]"

text \<open>The attributes that \<open>__init__\<close> sets. The compiled pattern is held as its search.\<close>

record OrderProcessor =
  standard_columns :: "ustr list"
  mapping_keywords :: "(ustr \<times> ustr list) list"
  order_no_pattern :: "ustr \<Rightarrow> ustr option"

definition OrderProcessor_init :: OrderProcessor where
  "OrderProcessor_init =
    \<lparr> standard_columns =
        [f_seq, f_name, f_spec, f_unit, f_qty, f_price, f_amount, f_remark],
      mapping_keywords =
        [(f_name, [[0x54C1, 0x540D], [0x7269, 0x6599, 0x540D, 0x79F0],
                   asc ''product name'', asc ''material name'']),
         (f_spec, [[0x89C4, 0x683C], [0x56FE, 0x53F7], [0x7269, 0x6599, 0x89C4, 0x683C],
                   asc ''spec'', asc ''specification'', [0x578B, 0x53F7]]),
         (f_unit, [[0x5355, 0x4F4D], asc ''unit'', asc ''uom'',
                   [0x91C7, 0x8D2D, 0x5355, 0x4F4D]]),
         (f_qty, [[0x6570, 0x91CF], asc ''qty'', asc ''quantity'',
                  [0x91C7, 0x8D2D, 0x6570, 0x91CF], [0x62A5, 0x4EF7, 0x6570, 0x91CF]]),
         (f_price, [[0x5355, 0x4EF7], asc ''price'', asc ''unit price'',
                    [0x62A5, 0x4EF7, 0x5355, 0x4EF7]]),
         (f_amount, [[0x91D1, 0x989D], asc ''total'', asc ''amount'']),
         (f_remark, [[0x5907, 0x6CE8], asc ''remarks'', [0x672C, 0x4F53, 0x5355, 0x91CD],
                     asc ''item no. remarks'', [0x8BE2, 0x4EF7, 0x8BF4, 0x660E]]),
         (f_inquirer, [[0x8BE2, 0x4EF7, 0x4EBA], asc ''inquirer'']),
         (f_agent, [[0x4EE3, 0x8D2D, 0x5382, 0x5546], asc ''purchasing agent'',
                    [0x4EE3, 0x8D2D]])],
      order_no_pattern = order_no_search \<rparr>"

subsection \<open>create_header_map\<close>

text \<open>
  A header map is a dictionary from field name to column index, kept in insertion
  order. The outer loop runs over the columns, the inner loop over the fields of
  \<open>mapping_keywords\<close>; a field that is already a key is left alone.
\<close>

type_synonym hmap = "(ustr \<times> nat) list"

text \<open>The inner loop, over the fields, for the column \<open>idx\<close> with lower-cased text \<open>low_val\<close>.\<close>

fun claim_fields :: "ustr \<Rightarrow> nat \<Rightarrow> hmap \<Rightarrow> (ustr \<times> ustr list) list \<Rightarrow> hmap" where
  "claim_fields low_val idx h_map [] = h_map"
| "claim_fields low_val idx h_map ((std_key, keywords) # rest) =
     claim_fields low_val idx
       (if map_of h_map std_key = None \<and> list_ex (\<lambda>kw. contains kw low_val) keywords
        then h_map @ [(std_key, idx)]
        else h_map)
       rest"

text \<open>The outer loop, over the columns from index \<open>idx\<close> on.\<close>

fun scan_columns :: "OrderProcessor \<Rightarrow> nat \<Rightarrow> hmap \<Rightarrow> ustr list \<Rightarrow> hmap" where
  "scan_columns self idx h_map [] = h_map"
| "scan_columns self idx h_map (val # vals) =
     scan_columns self (Suc idx)
       (claim_fields (lower val) idx h_map (mapping_keywords self)) vals"

definition create_header_map :: "OrderProcessor \<Rightarrow> ustr list \<Rightarrow> hmap" where
  "create_header_map self row_values = scan_columns self 0 [] row_values"

subsection \<open>normalize_unit and map_row_to_std\<close>

fun first_unit :: "(ustr \<times> ustr) list \<Rightarrow> ustr \<Rightarrow> ustr" where
  "first_unit [] u = u"
| "first_unit ((k, v) # kvs) u = (if contains k u then v else first_unit kvs u)"

definition normalize_unit :: "ustr \<Rightarrow> ustr" where
  "normalize_unit u = first_unit UNIT_MAP u"

text \<open>
  \<open>map_row_to_std\<close> returns a dictionary of strings; \<open>AList.update\<close> is the dictionary
  assignment (a new key goes to the end, an old key keeps its place).
\<close>

fun map_row_loop :: "ustr list \<Rightarrow> (ustr \<times> ustr) list \<Rightarrow> hmap \<Rightarrow> (ustr \<times> ustr) list" where
  "map_row_loop row_values res [] = res"
| "map_row_loop row_values res ((k, idx) # rest) =
     map_row_loop row_values
       (if idx < length row_values then
          AList.update k
            (if k = f_unit then normalize_unit (row_values ! idx) else row_values ! idx) res
        else res)
       rest"

definition map_row_to_std :: "ustr list \<Rightarrow> hmap \<Rightarrow> (ustr \<times> ustr) list" where
  "map_row_to_std row_values h_map = map_row_loop row_values [] h_map"

section \<open>Sections and the row scan\<close>

text \<open>
  A section is the dictionary that \<open>parse_file_to_sections\<close> builds, with its five
  keys. \<open>data_rows\<close> is the data frame of the section, one dictionary over
  \<open>standard_columns\<close> for each row; the frame is empty when the list is.
\<close>

record 'f order_section =
  order_no :: ustr
  date :: ustr
  info :: ustr
  header_map :: "hmap option"
  data_rows :: "(ustr \<times> 'f pyval) list list"

text \<open>The local variables of the second loop.\<close>

record 'f scan_state =
  sections :: "'f order_section list"
  current_section :: "'f order_section option"
  header_map_var :: "hmap option"

text \<open>The sentinel order number U+672A U+77E5 U+5355 U+53F7 (unknown order number).\<close>

definition unknown_order_no :: ustr where
  "unknown_order_no = [0x672A, 0x77E5, 0x5355, 0x53F7]"

text \<open>The default \<open>info\<close>, U+5DE5 U+5355 U+8BE6 U+60C5 (order details).\<close>

definition default_info :: ustr where
  "default_info = [0x5DE5, 0x5355, 0x8BE6, 0x60C5]"

text \<open>
  The header test of line 95: one of the name keywords (item name, material name,
  specification) and one of quantity, unit price occur in the text of the row.
\<close>

definition is_header_row :: "ustr \<Rightarrow> bool" where
  "is_header_row row_str =
     (list_ex (\<lambda>k. contains k row_str)
        [[0x54C1, 0x540D], [0x7269, 0x6599, 0x540D, 0x79F0], [0x89C4, 0x683C]] \<and>
      list_ex (\<lambda>k. contains k row_str) [[0x6570, 0x91CF], [0x5355, 0x4EF7]])"

text \<open>
  The item names that are header labels (line 120): item name, material name,
  \<open>Material Name\<close>, and material name followed by item name in brackets.
\<close>

definition name_placeholders :: "ustr list" where
  "name_placeholders =
     [[0x54C1, 0x540D], [0x7269, 0x6599, 0x540D, 0x79F0], asc ''Material Name'',
      [0x7269, 0x6599, 0x540D, 0x79F0, 0x28, 0x54C1, 0x540D, 0x29]]"

text \<open>The texts that count as no value for agent and inquirer (line 129).\<close>

definition empty_words :: "ustr list" where
  "empty_words = [[0x65E0], [0x7121], asc ''none'', asc ''null'', asc ''-'', asc ''nan'']"

text \<open>\<open>d.get(k, default)\<close>\<close>

definition dict_get :: "('k \<times> 'v) list \<Rightarrow> 'k \<Rightarrow> 'v \<Rightarrow> 'v" where
  "dict_get d k dflt = (case map_of d k of None \<Rightarrow> dflt | Some v \<Rightarrow> v)"

text \<open>Lines 127 to 133: the info text of a section, from the first item of it.\<close>

definition blank_empty_word :: "ustr \<Rightarrow> ustr" where
  "blank_empty_word a = foldl (\<lambda>a e. if lower a = e then [] else a) a empty_words"

definition derive_info :: "(ustr \<times> ustr) list \<Rightarrow> ustr" where
  "derive_info item_data =
     (let agent = blank_empty_word (strip (dict_get item_data f_agent []));
          inquirer = blank_empty_word (strip (dict_get item_data f_inquirer []));
          parts = filter (\<lambda>p. p \<noteq> []) [agent, inquirer]
      in if parts \<noteq> [] then join [0xFF0C] parts else default_info)"

text \<open>
  Lines 135 to 141: quantity, unit price and amount are computed from the quantity
  and unit-price cells and stored over whatever the row had under these keys; the
  emitted record reads the standard columns from the resulting dictionary.
\<close>

definition str_or_none :: "(ustr \<times> ustr) list \<Rightarrow> ustr \<Rightarrow> 'f pyval" where
  "str_or_none item_data k = (case map_of item_data k of None \<Rightarrow> PNone | Some s \<Rightarrow> PStr s)"

definition filtered_item ::
  "'f pyfloat \<Rightarrow> OrderProcessor \<Rightarrow> (ustr \<times> ustr) list \<Rightarrow> (ustr \<times> 'f pyval) list" where
  "filtered_item L self item_data =
     (let qty = safe_float L (str_or_none item_data f_qty);
          prc = safe_float L (str_or_none item_data f_price);
          d0 = map (\<lambda>kv. (fst kv, PStr (snd kv))) item_data;
          d1 = AList.update f_qty
                 (if float_is_integer L qty then PInt (float_to_int L qty) else PFloat qty) d0;
          d2 = AList.update f_price (PFloat (float_round2 L prc)) d1;
          d3 = AList.update f_amount (PFloat (float_round2 L (float_mul L qty prc))) d2
      in map (\<lambda>col. (col, dict_get d3 col (PStr []))) (standard_columns self))"

text \<open>
  Lines 100 to 114: the order-number search on the text of the row, and the opening
  of a section when the token is new.
\<close>

definition close_section :: "'f scan_state \<Rightarrow> 'f order_section list" where
  "close_section st =
     (case current_section st of
        None \<Rightarrow> sections st
      | Some s \<Rightarrow> if data_rows s \<noteq> [] then sections st @ [s] else sections st)"

definition switch_section :: "OrderProcessor \<Rightarrow> ustr \<Rightarrow> 'f scan_state \<Rightarrow> 'f scan_state" where
  "switch_section self row_str st =
     (case order_no_pattern self row_str of
        None \<Rightarrow> st
      | Some found_id \<Rightarrow>
          if found_id \<noteq> [] \<and>
             (case current_section st of None \<Rightarrow> True | Some s \<Rightarrow> found_id \<noteq> order_no s)
          then
            st\<lparr> sections := close_section st,
                current_section :=
                  Some \<lparr> order_no = found_id,
                         date = (case date_search row_str of None \<Rightarrow> [] | Some d \<Rightarrow> d),
                         info = [],
                         header_map = header_map_var st,
                         data_rows = [] \<rparr> \<rparr>
          else st)"

text \<open>Lines 116 to 143: the projection of the row and its addition to the section.\<close>

definition add_item ::
  "'f pyfloat \<Rightarrow> OrderProcessor \<Rightarrow> ustr \<Rightarrow> ustr list \<Rightarrow> 'f scan_state \<Rightarrow> 'f scan_state" where
  "add_item L self global_id row_values st =
     (case header_map_var st of
        None \<Rightarrow> st
      | Some h_map \<Rightarrow>
          if h_map = [] then st
          else
            (let item_data = map_row_to_std row_values h_map;
                 p_name = dict_get item_data f_name []
             in if p_name \<noteq> [] \<and> p_name \<notin> set name_placeholders then
                  (let cur = (case current_section st of
                                None \<Rightarrow> \<lparr> order_no = global_id, date = [], info = [],
                                          header_map = Some h_map, data_rows = [] \<rparr>
                              | Some s \<Rightarrow> s);
                       cur1 = (if info cur = [] then cur\<lparr> info := derive_info item_data \<rparr>
                               else cur)
                   in st\<lparr> current_section :=
                           Some (cur1\<lparr> data_rows :=
                                   data_rows cur1 @ [filtered_item L self item_data] \<rparr>) \<rparr>)
                else st))"

text \<open>One turn of the loop of line 90, on the cells of one row.\<close>

definition scan_row ::
  "'f pyfloat \<Rightarrow> OrderProcessor \<Rightarrow> ustr \<Rightarrow> 'f scan_state \<Rightarrow> ustr list \<Rightarrow> 'f scan_state" where
  "scan_row L self global_id st row =
     (let row_values = map strip row;
          row_str = join (asc '' '') row_values
      in if is_header_row row_str then
           (let h_map = create_header_map self row_values
            in st\<lparr> current_section :=
                     map_option (\<lambda>s. s\<lparr> header_map := Some h_map \<rparr>) (current_section st),
                   header_map_var := Some h_map \<rparr>)
         else add_item L self global_id row_values (switch_section self row_str st))"

section \<open>parse_file_to_sections\<close>

text \<open>
  A grid is the data frame that the loader returns: rows of text cells, every row with
  one cell for each column. \<open>df.empty\<close> holds when there is no row or no column.
\<close>

type_synonym grid = "ustr list list"

definition df_empty :: "grid \<Rightarrow> bool" where
  "df_empty df = (case df of [] \<Rightarrow> True | row # _ \<Rightarrow> row = [])"

text \<open>
  Lines 78 to 84: the first order-number token of the file, over every row in order,
  on the cells joined as they are; the sentinel when no row has one.
\<close>

fun find_global_id :: "OrderProcessor \<Rightarrow> ustr \<Rightarrow> grid \<Rightarrow> ustr" where
  "find_global_id self global_id [] = global_id"
| "find_global_id self global_id (row # rows) =
     (case order_no_pattern self (join (asc '' '') row) of
        Some m \<Rightarrow> m
      | None \<Rightarrow> find_global_id self global_id rows)"

definition scan_start :: "'f scan_state" where
  "scan_start = \<lparr> sections = [], current_section = None, header_map_var = None \<rparr>"

text \<open>The method after the loader has returned the frame \<open>df\<close> (lines 76 to 147).\<close>

definition parse_df :: "'f pyfloat \<Rightarrow> OrderProcessor \<Rightarrow> grid \<Rightarrow> 'f order_section list" where
  "parse_df L self df =
     (if df_empty df then []
      else
        (let global_id = find_global_id self unknown_order_no df
         in close_section (foldl (scan_row L self global_id) scan_start df)))"

subsection \<open>read_excel_smart\<close>

text \<open>
  The two readers of pandas are taken as given: \<open>read_csv path enc\<close> and
  \<open>read_excel path\<close> are the frame that the reader returns (all cells text, missing
  cells filled with the empty string), or \<open>None\<close> when the reader raises.
\<close>

record file_io =
  read_csv :: "ustr \<Rightarrow> ustr \<Rightarrow> grid option"
  read_excel :: "ustr \<Rightarrow> grid option"

definition csv_encodings :: "ustr list" where
  "csv_encodings = [asc ''utf-8'', asc ''gbk'', asc ''gb18030'', asc ''utf-8-sig'']"

definition endswith :: "ustr \<Rightarrow> ustr \<Rightarrow> bool" where
  "endswith s suffix = has_prefix (rev suffix) (rev s)"

text \<open>The loop over the encodings: the first frame that a reader returns, if any.\<close>

fun try_encodings :: "file_io \<Rightarrow> ustr \<Rightarrow> ustr list \<Rightarrow> grid option" where
  "try_encodings io file_path [] = None"
| "try_encodings io file_path (enc # encs) =
     (case read_csv io file_path enc of
        Some df \<Rightarrow> Some df
      | None \<Rightarrow> try_encodings io file_path encs)"

datatype load_error = ReadError

text \<open>
  The body of the outer \<open>try\<close>: it returns a frame or raises. After the loop over the
  encodings has ended without a frame, control reaches the call of \<open>read_excel\<close>.
\<close>

definition read_excel_smart_try :: "file_io \<Rightarrow> ustr \<Rightarrow> load_error + grid" where
  "read_excel_smart_try io file_path =
     (case (if endswith file_path (asc ''.csv'')
            then try_encodings io file_path csv_encodings else None) of
        Some df \<Rightarrow> Inr df
      | None \<Rightarrow>
          (case read_excel io file_path of
             Some df \<Rightarrow> Inr df
           | None \<Rightarrow> Inl ReadError))"

text \<open>The outer \<open>except\<close> returns the empty frame \<open>pd.DataFrame()\<close>.\<close>

definition read_excel_smart :: "file_io \<Rightarrow> ustr \<Rightarrow> load_error + grid" where
  "read_excel_smart io file_path =
     (case read_excel_smart_try io file_path of
        Inl e \<Rightarrow> Inr []
      | Inr df \<Rightarrow> Inr df)"

text \<open>
  \<open>parse_file_to_sections\<close> on a path. An exception of the loader would leave the
  method; the result is the list of sections otherwise.
\<close>

definition parse_file_to_sections ::
  "'f pyfloat \<Rightarrow> file_io \<Rightarrow> OrderProcessor \<Rightarrow> ustr \<Rightarrow> load_error + 'f order_section list" where
  "parse_file_to_sections L io self file_path =
     (case read_excel_smart io file_path of
        Inl e \<Rightarrow> Inl e
      | Inr df \<Rightarrow> Inr (parse_df L self df))"

section \<open>A decimal instance of the float library\<close>

text \<open>
  To run the model on concrete rows, the float operations are instantiated with exact
  decimal arithmetic on rationals: \<open>dec_of_str\<close> reads an optional sign, digits and an
  optional fraction, \<open>dec_round2\<close> rounds to hundredths (halves to the even neighbour).
  The general theorems do not depend on this instance.
\<close>

fun dec_digits :: "ustr \<Rightarrow> nat \<Rightarrow> nat option" where
  "dec_digits [] acc = Some acc"
| "dec_digits (c # cs) acc =
     (if 48 \<le> c \<and> c \<le> 57 then dec_digits cs (10 * acc + (c - 48)) else None)"

definition dec_unsigned :: "ustr \<Rightarrow> rat option" where
  "dec_unsigned s =
     (let ip = takeWhile (\<lambda>c. c \<noteq> 0x2E) s;
          fp = drop 1 (dropWhile (\<lambda>c. c \<noteq> 0x2E) s)
      in if ip = [] then None
         else
           (case (dec_digits ip 0, dec_digits fp 0) of
              (Some a, Some b) \<Rightarrow> Some (of_nat a + of_nat b / of_nat (10 ^ length fp))
            | _ \<Rightarrow> None))"

definition dec_of_str :: "ustr \<Rightarrow> rat option" where
  "dec_of_str s =
     (case s of
        [] \<Rightarrow> None
      | c # cs \<Rightarrow>
          if c = 0x2D then map_option uminus (dec_unsigned cs)
          else if c = 0x2B then dec_unsigned cs
          else dec_unsigned s)"

definition round_half_even :: "rat \<Rightarrow> int" where
  "round_half_even y =
     (let n = \<lfloor>y\<rfloor>; r = y - of_int n
      in if r < 1 / 2 then n
         else if 1 / 2 < r then n + 1
         else if even n then n else n + 1)"

definition dec_round2 :: "rat \<Rightarrow> rat" where
  "dec_round2 x = of_int (round_half_even (x * 100)) / 100"

definition dec_to_int :: "rat \<Rightarrow> int" where
  "dec_to_int x = (if 0 \<le> x then \<lfloor>x\<rfloor> else \<lceil>x\<rceil>)"

fun frac_digits :: "nat \<Rightarrow> rat \<Rightarrow> ustr" where
  "frac_digits 0 r = []"
| "frac_digits (Suc k) r =
     (if r = 0 then []
      else (48 + nat \<lfloor>r * 10\<rfloor>) # frac_digits k (r * 10 - of_int \<lfloor>r * 10\<rfloor>))"

definition dec_str :: "rat \<Rightarrow> ustr" where
  "dec_str x =
     (let a = \<bar>x\<bar>; n = \<lfloor>a\<rfloor>; r = a - of_int n
      in (if x < 0 then [0x2D] else []) @ str_int n @ [0x2E] @
         (if r = 0 then [48] else frac_digits 17 r))"

definition dec_float :: "rat pyfloat" where
  "dec_float =
     \<lparr> float_of_str = dec_of_str,
       float_zero = 0,
       float_mul = (\<lambda>a b. a * b),
       float_round2 = dec_round2,
       float_is_integer = (\<lambda>x. of_int \<lfloor>x\<rfloor> = x),
       float_to_int = dec_to_int,
       float_str = dec_str \<rparr>"

section \<open>Notions used to state the properties\<close>

text \<open>
  \<open>field_matches keywords val\<close>: the lower-cased text of the header cell \<open>val\<close>
  contains one of the alias keywords. \<open>first_match keywords idx vals\<close> is the index of
  the first cell of \<open>vals\<close> that matches, counting from \<open>idx\<close>.
\<close>

definition field_matches :: "ustr list \<Rightarrow> ustr \<Rightarrow> bool" where
  "field_matches keywords val = list_ex (\<lambda>kw. contains kw (lower val)) keywords"

fun first_match :: "ustr list \<Rightarrow> nat \<Rightarrow> ustr list \<Rightarrow> nat option" where
  "first_match keywords idx [] = None"
| "first_match keywords idx (val # vals) =
     (if field_matches keywords val then Some idx else first_match keywords (Suc idx) vals)"

text \<open>
  The text of a row as the second loop sees it: the stripped cells joined by one space.
\<close>

definition row_text :: "ustr list \<Rightarrow> ustr" where
  "row_text row = join (asc '' '') (map strip row)"

text \<open>Every section of a list holds at least one record.\<close>

definition sections_nonempty :: "'f order_section list \<Rightarrow> bool" where
  "sections_nonempty secs = list_all (\<lambda>s. data_rows s \<noteq> []) secs"

text \<open>
  Example grids. In \<open>grid_c1\<close> an order-number row is followed by a header row that
  carries another order number and by one item row. In \<open>grid_c2\<close> two header rows carry
  two different order numbers before the first item row; in \<open>grid_c2b\<close> the only order
  number comes after the item row. In \<open>grid_c10\<close> the same order number occurs twice,
  the second time in lower case.
\<close>

definition grid_c1 :: grid where
  "grid_c1 =
     [[asc ''XIDP-1111111111'', [], []],
      [f_name, f_qty, asc ''XIDP-2222222222''],
      [asc ''bolt'', asc ''3'', []]]"

definition grid_c2 :: grid where
  "grid_c2 =
     [[f_name, f_qty, asc ''XIDP-1111111111''],
      [f_name, f_qty, asc ''XIDP-2222222222''],
      [asc ''bolt'', asc ''3'', []]]"

definition grid_c2b :: grid where
  "grid_c2b =
     [[f_name, f_qty],
      [asc ''bolt'', asc ''3''],
      [[], asc ''XIDP-3333333333'']]"

definition grid_c10 :: grid where
  "grid_c10 =
     [[f_name, f_qty],
      [[], asc ''XIDP-1234567890''],
      [asc ''bolt'', asc ''3''],
      [[], asc ''xidp-1234567890''],
      [asc ''nut'', asc ''5'']]"

text \<open>
  Two file systems for the loader: on \<open>io_excel_only\<close> the CSV reader fails for every
  encoding and the spreadsheet reader returns a one-cell grid for every path; on
  \<open>io_unreadable\<close> every reader fails.
\<close>

definition io_excel_only :: file_io where
  "io_excel_only = \<lparr> read_csv = (\<lambda>p enc. None), read_excel = (\<lambda>p. Some [[asc ''a'']]) \<rparr>"

definition io_unreadable :: file_io where
  "io_unreadable = \<lparr> read_csv = (\<lambda>p enc. None), read_excel = (\<lambda>p. None) \<rparr>"


section \<open>WorkerThread.run\<close>

text \<open>
  The export of \<open>run\<close>, without the styling of the cells and the progress signals.
  The worksheet is the list of the rows written, in the order of writing, each with its
  row number: the header row of line 202, the info row of a section, and the rows of the
  items. \<open>seen_rows\<close> is the set of line 192, created once before the loop over the files.
\<close>

datatype 'f ws_row = HeaderRow "ustr list" | InfoRow ustr ustr ustr | ItemRow "'f pyval list"

record 'f export_state =
  seen_rows :: "(ustr \<times> 'f pyval \<times> 'f pyval \<times> ustr) set"
  ws :: "(nat \<times> 'f ws_row) list"
  curr_row :: nat

text \<open>
  The workbook library. \<open>ws_cell X r c v\<close> tells whether the call \<open>ws.cell(r, c, v)\<close>
  returns: the library raises for a value that it does not take, such as a text with a
  control character. \<open>wb_save X sheet\<close> tells whether the workbook can be written to the
  output directory. Both are parameters of the model.
\<close>

record 'f openpyxl =
  ws_cell :: "nat \<Rightarrow> nat \<Rightarrow> 'f pyval \<Rightarrow> bool"
  wb_save :: "(nat \<times> 'f ws_row) list \<Rightarrow> bool"

text \<open>
  An exception inside \<open>run\<close> leaves all loops and is caught at line 259: the message is
  logged, nothing is saved, and the workbook and \<open>seen_rows\<close>, which are local, are lost.
\<close>

datatype export_error = SheetError | SaveError | ParseError load_error

text \<open>
  The calls \<open>ws.cell(r, c, v)\<close> for the values \<open>vals\<close> of one row, from column \<open>c\<close> on, all
  return.
\<close>

fun cells_ok :: "'f openpyxl \<Rightarrow> nat \<Rightarrow> nat \<Rightarrow> 'f pyval list \<Rightarrow> bool" where
  "cells_ok X r c [] = True"
| "cells_ok X r c (v # vals) = (ws_cell X r c v \<and> cells_ok X r (Suc c) vals)"

text \<open>
  Line 229: the key of a record. \<open>str\<close> of the quantity is \<open>py_str\<close> of the value that
  the row holds.
\<close>

definition row_sig ::
  "'f pyfloat \<Rightarrow> ustr \<Rightarrow> (ustr \<times> 'f pyval) list \<Rightarrow> ustr \<times> 'f pyval \<times> 'f pyval \<times> ustr" where
  "row_sig L ono row =
     (ono, dict_get row f_name PNone, dict_get row f_spec PNone,
      py_str L (dict_get row f_qty PNone))"

text \<open>Lines 233 to 236: the cells of an item row; the sequence number replaces the first.\<close>

definition item_cells :: "OrderProcessor \<Rightarrow> nat \<Rightarrow> (ustr \<times> 'f pyval) list \<Rightarrow> 'f pyval list" where
  "item_cells self written_count row =
     map (\<lambda>col_name. if col_name = f_seq then PInt (int written_count + 1)
                      else dict_get row col_name PNone)
       (standard_columns self)"

text \<open>
  Lines 228 to 242, one record: the state of the sheet and \<open>written_count\<close> before and
  after. A record whose key is in \<open>seen_rows\<close> is passed over by \<open>continue\<close>, before any
  cell is written. Otherwise the key is added and the cells are written from left to
  right; the first one that the sheet does not take raises, and the exception ends the
  run, so that the state with the key added and the row half written is never seen.
\<close>

definition write_record ::
  "'f openpyxl \<Rightarrow> 'f pyfloat \<Rightarrow> OrderProcessor \<Rightarrow> ustr \<Rightarrow> 'f export_state \<times> nat \<Rightarrow>
   (ustr \<times> 'f pyval) list \<Rightarrow> export_error + 'f export_state \<times> nat" where
  "write_record X L self ono sw row =
     (if row_sig L ono row \<in> seen_rows (fst sw) then Inr sw
      else if cells_ok X (curr_row (fst sw)) 1 (item_cells self (snd sw) row) then
        Inr ((fst sw)\<lparr> seen_rows := insert (row_sig L ono row) (seen_rows (fst sw)),
                        ws := ws (fst sw) @ [(curr_row (fst sw), ItemRow (item_cells self (snd sw) row))],
                        curr_row := curr_row (fst sw) + 1 \<rparr>,
             snd sw + 1)
      else Inl SheetError)"

text \<open>Lines 228 to 242: the loop over the records of a section.\<close>

fun write_records ::
  "'f openpyxl \<Rightarrow> 'f pyfloat \<Rightarrow> OrderProcessor \<Rightarrow> ustr \<Rightarrow> 'f export_state \<times> nat \<Rightarrow>
   (ustr \<times> 'f pyval) list list \<Rightarrow> export_error + 'f export_state \<times> nat" where
  "write_records X L self ono sw [] = Inr sw"
| "write_records X L self ono sw (row # rows) =
     (case write_record X L self ono sw row of
        Inl e \<Rightarrow> Inl e
      | Inr sw' \<Rightarrow> write_records X L self ono sw' rows)"

text \<open>Lines 244 to 248: a section with no written record gives its info row back.\<close>

definition finish_section :: "'f export_state \<times> nat \<Rightarrow> 'f export_state" where
  "finish_section sw =
     (if snd sw = 0 then (fst sw)\<lparr> curr_row := curr_row (fst sw) - 1 \<rparr>
      else (fst sw)\<lparr> curr_row := curr_row (fst sw) + 1 \<rparr>)"

text \<open>
  Lines 212 to 248, one section: the three cells of the info row, then the records.
  \<open>iterrows\<close> stands for the iteration of pandas over the data frame of the section: it
  returns the rows as the frame gives them back (pandas may widen the numbers of a
  column), and is a parameter of the model.
\<close>

definition write_section ::
  "'f openpyxl \<Rightarrow> 'f pyfloat \<Rightarrow> ((ustr \<times> 'f pyval) list list \<Rightarrow> (ustr \<times> 'f pyval) list list) \<Rightarrow>
   OrderProcessor \<Rightarrow> 'f export_state \<Rightarrow> 'f order_section \<Rightarrow> export_error + 'f export_state" where
  "write_section X L iterrows self st s =
     (if cells_ok X (curr_row st) 1 [PStr (date s), PStr (info s), PStr (order_no s)] then
        (case write_records X L self (order_no s)
                (st\<lparr> ws := ws st @ [(curr_row st, InfoRow (date s) (info s) (order_no s))],
                     curr_row := curr_row st + 1 \<rparr>, 0)
                (iterrows (data_rows s)) of
           Inl e \<Rightarrow> Inl e
         | Inr sw \<Rightarrow> Inr (finish_section sw))
      else Inl SheetError)"

text \<open>Lines 211 to 248: the loop over the sections of a file.\<close>

fun write_sections ::
  "'f openpyxl \<Rightarrow> 'f pyfloat \<Rightarrow> ((ustr \<times> 'f pyval) list list \<Rightarrow> (ustr \<times> 'f pyval) list list) \<Rightarrow>
   OrderProcessor \<Rightarrow> 'f export_state \<Rightarrow> 'f order_section list \<Rightarrow> export_error + 'f export_state" where
  "write_sections X L iterrows self st [] = Inr st"
| "write_sections X L iterrows self st (s # secs) =
     (case write_section X L iterrows self st s of
        Inl e \<Rightarrow> Inl e
      | Inr st' \<Rightarrow> write_sections X L iterrows self st' secs)"

text \<open>
  Lines 208 to 250, the loop over the files from index \<open>idx\<close> on. \<open>abort idx\<close> is the
  value of the flag \<open>_abort\<close> when the loop reaches the file \<open>idx\<close>.
\<close>

fun run_files ::
  "'f openpyxl \<Rightarrow> 'f pyfloat \<Rightarrow> ((ustr \<times> 'f pyval) list list \<Rightarrow> (ustr \<times> 'f pyval) list list) \<Rightarrow>
   file_io \<Rightarrow> OrderProcessor \<Rightarrow> (nat \<Rightarrow> bool) \<Rightarrow> nat \<Rightarrow> 'f export_state \<Rightarrow> ustr list \<Rightarrow>
   export_error + 'f export_state" where
  "run_files X L iterrows io self abort idx st [] = Inr st"
| "run_files X L iterrows io self abort idx st (fpath # files) =
     (if abort idx then Inr st
      else
        (case parse_file_to_sections L io self fpath of
           Inl e \<Rightarrow> Inl (ParseError e)
         | Inr secs \<Rightarrow>
             (case write_sections X L iterrows self st secs of
                Inl e \<Rightarrow> Inl e
              | Inr st' \<Rightarrow> run_files X L iterrows io self abort (Suc idx) st' files)))"

definition run_start :: "OrderProcessor \<Rightarrow> 'f export_state" where
  "run_start self = \<lparr> seen_rows = {}, ws = [(1, HeaderRow (standard_columns self))], curr_row = 2 \<rparr>"

text \<open>
  The outcome of \<open>run\<close>: the workbook saved (line 254), nothing to save (line 257), or an
  exception caught at line 259.
\<close>

datatype 'f run_result = Saved "'f export_state" | NothingToSave | Failed export_error

text \<open>Lines 191 to 261.\<close>

definition run ::
  "'f openpyxl \<Rightarrow> 'f pyfloat \<Rightarrow> ((ustr \<times> 'f pyval) list list \<Rightarrow> (ustr \<times> 'f pyval) list list) \<Rightarrow>
   file_io \<Rightarrow> OrderProcessor \<Rightarrow> (nat \<Rightarrow> bool) \<Rightarrow> ustr list \<Rightarrow> 'f run_result" where
  "run X L iterrows io self abort files =
     (if cells_ok X 1 1 (map PStr (standard_columns self)) then
        (case run_files X L iterrows io self abort 0 (run_start self) files of
           Inl e \<Rightarrow> Failed e
         | Inr st \<Rightarrow>
             if curr_row st > 2 then (if wb_save X (ws st) then Saved st else Failed SaveError)
             else NothingToSave)
      else Failed SheetError)"

text \<open>
  To state the property of the de-duplication: \<open>batch_sections\<close> lists the sections that
  the loops of one batch visit, in order, and \<open>batch_records\<close> their records, each with
  the order number of its section; \<open>batch_keys\<close> is the set of the keys of these records;
  \<open>item_rows\<close> are the item rows of a sheet; \<open>one_row_per_key\<close> says that the sheet has
  one item row for each key seen.
\<close>

fun batch_sections ::
  "'f pyfloat \<Rightarrow> file_io \<Rightarrow> OrderProcessor \<Rightarrow> (nat \<Rightarrow> bool) \<Rightarrow> nat \<Rightarrow> ustr list \<Rightarrow>
   'f order_section list" where
  "batch_sections L io self abort idx [] = []"
| "batch_sections L io self abort idx (fpath # files) =
     (if abort idx then []
      else
        (case parse_file_to_sections L io self fpath of
           Inl e \<Rightarrow> []
         | Inr secs \<Rightarrow> secs @ batch_sections L io self abort (Suc idx) files))"

definition section_records ::
  "((ustr \<times> 'f pyval) list list \<Rightarrow> (ustr \<times> 'f pyval) list list) \<Rightarrow> 'f order_section list \<Rightarrow>
   (ustr \<times> (ustr \<times> 'f pyval) list) list" where
  "section_records iterrows secs =
     concat (map (\<lambda>s. map (Pair (order_no s)) (iterrows (data_rows s))) secs)"

definition batch_keys ::
  "'f pyfloat \<Rightarrow> ((ustr \<times> 'f pyval) list list \<Rightarrow> (ustr \<times> 'f pyval) list list) \<Rightarrow>
   file_io \<Rightarrow> OrderProcessor \<Rightarrow> (nat \<Rightarrow> bool) \<Rightarrow> ustr list \<Rightarrow>
   (ustr \<times> 'f pyval \<times> 'f pyval \<times> ustr) set" where
  "batch_keys L iterrows io self abort files =
     (\<lambda>p. row_sig L (fst p) (snd p)) `
       set (section_records iterrows (batch_sections L io self abort 0 files))"

fun item_rows :: "(nat \<times> 'f ws_row) list \<Rightarrow> 'f pyval list list" where
  "item_rows [] = []"
| "item_rows ((r, ItemRow cells) # rest) = cells # item_rows rest"
| "item_rows ((r, other) # rest) = item_rows rest"

definition one_row_per_key :: "'f export_state \<Rightarrow> bool" where
  "one_row_per_key st = (finite (seen_rows st) \<and> length (item_rows (ws st)) = card (seen_rows st))"

text \<open>
  \<open>sheet_takes X v\<close>: the sheet takes the value \<open>v\<close> in every cell. \<open>batch_values\<close> lists
  the values, apart from the sequence numbers, that the loops of one batch may write:
  the names of the header row, the three texts of each info row, and the cells of each
  record.
\<close>

definition sheet_takes :: "'f openpyxl \<Rightarrow> 'f pyval \<Rightarrow> bool" where
  "sheet_takes X v = (\<forall>r c. ws_cell X r c v)"

definition record_values :: "OrderProcessor \<Rightarrow> (ustr \<times> 'f pyval) list \<Rightarrow> 'f pyval list" where
  "record_values self row =
     map (\<lambda>col_name. dict_get row col_name PNone)
       (filter (\<lambda>col_name. col_name \<noteq> f_seq) (standard_columns self))"

definition section_values ::
  "((ustr \<times> 'f pyval) list list \<Rightarrow> (ustr \<times> 'f pyval) list list) \<Rightarrow> OrderProcessor \<Rightarrow>
   'f order_section \<Rightarrow> 'f pyval list" where
  "section_values iterrows self s =
     [PStr (date s), PStr (info s), PStr (order_no s)] @
     concat (map (record_values self) (iterrows (data_rows s)))"

definition batch_values ::
  "'f pyfloat \<Rightarrow> ((ustr \<times> 'f pyval) list list \<Rightarrow> (ustr \<times> 'f pyval) list list) \<Rightarrow>
   file_io \<Rightarrow> OrderProcessor \<Rightarrow> (nat \<Rightarrow> bool) \<Rightarrow> ustr list \<Rightarrow> 'f pyval list" where
  "batch_values L iterrows io self abort files =
     map PStr (standard_columns self) @
     concat (map (section_values iterrows self) (batch_sections L io self abort 0 files))"

text \<open>
  A stand-in for the workbook library: a text cell is refused when it holds one of the
  control characters that the library rejects (U+0000 to U+0008, U+000B, U+000C, U+000E
  to U+001F); saving succeeds.
\<close>

definition illegal_character :: "nat \<Rightarrow> bool" where
  "illegal_character c = (c \<le> 8 \<or> c = 11 \<or> c = 12 \<or> (14 \<le> c \<and> c \<le> 31))"

definition plain_sheet :: "'f openpyxl" where
  "plain_sheet =
     \<lparr> ws_cell = (\<lambda>r c v. case v of PStr s \<Rightarrow> \<not> list_ex illegal_character s | _ \<Rightarrow> True),
       wb_save = (\<lambda>sheet. True) \<rparr>"

text \<open>A record over the standard columns: ten bolts at the given unit price.\<close>

definition bolt_row :: "rat \<Rightarrow> (ustr \<times> rat pyval) list" where
  "bolt_row price =
     [(f_seq, PStr []), (f_name, PStr (asc ''bolt'')), (f_spec, PStr (asc ''M6x20'')),
      (f_unit, PStr []), (f_qty, PInt 10), (f_price, PFloat price),
      (f_amount, PFloat (10 * price)), (f_remark, PStr [])]"

text \<open>
  A file system where every path holds the same sheet: a header row, an order number,
  and one item. In \<open>io_control\<close> the name of the item starts with the character U+0001.
\<close>

definition grid_bolt :: "ustr \<Rightarrow> grid" where
  "grid_bolt name =
     [[f_name, f_qty],
      [[], asc ''XIDP-1234567890''],
      [name, asc ''3'']]"

definition io_bolt :: file_io where
  "io_bolt = \<lparr> read_csv = (\<lambda>p enc. None), read_excel = (\<lambda>p. Some (grid_bolt (asc ''bolt''))) \<rparr>"

definition io_control :: file_io where
  "io_control = \<lparr> read_csv = (\<lambda>p enc. None), read_excel = (\<lambda>p. Some (grid_bolt (1 # asc ''bolt''))) \<rparr>"

section \<open>Properties of create_header_map\<close>

lemmas fdefs = f_seq_def f_unit_def f_price_def f_name_def f_spec_def f_qty_def f_amount_def
  f_remark_def f_inquirer_def f_agent_def

lemma map_of_snoc:
  "map_of (h @ [(k', v)]) k = (case map_of h k of Some i \<Rightarrow> Some i | None \<Rightarrow> if k = k' then Some v else None)"
  by (induction h) auto

lemma claim_fields_lookup:
  "distinct (map fst kl) \<Longrightarrow>
   map_of (claim_fields low idx h kl) k =
     (case map_of h k of
        Some i \<Rightarrow> Some i
      | None \<Rightarrow>
          (case map_of kl k of
             Some kws \<Rightarrow> if list_ex (\<lambda>kw. contains kw low) kws then Some idx else None
           | None \<Rightarrow> None))"
proof (induction kl arbitrary: h)
  case Nil
  then show ?case by (simp split: option.splits)
next
  case (Cons a kl)
  obtain k' kws' where a: "a = (k', kws')" by (cases a)
  from Cons.prems a have d: "distinct (map fst kl)" and nk: "k' \<notin> fst ` set kl" by auto
  from nk have none: "map_of kl k' = None" by (simp add: map_of_eq_None_iff)
  show ?case
    using Cons.IH[OF d] none
    by (auto simp: a map_of_snoc split: option.splits)
qed

lemma scan_columns_lookup:
  "distinct (map fst (mapping_keywords self)) \<Longrightarrow>
   map_of (scan_columns self idx h rv) k =
     (case map_of h k of
        Some i \<Rightarrow> Some i
      | None \<Rightarrow>
          (case map_of (mapping_keywords self) k of
             Some kws \<Rightarrow> first_match kws idx rv
           | None \<Rightarrow> None))"
proof (induction rv arbitrary: idx h)
  case Nil
  then show ?case by (simp split: option.splits)
next
  case (Cons v rv)
  show ?case
    using Cons.prems
    by (simp add: Cons.IH claim_fields_lookup field_matches_def split: option.splits)
qed

lemma first_match_iff:
  "first_match kws n rv = Some i \<longleftrightarrow>
     n \<le> i \<and> i - n < length rv \<and> field_matches kws (rv ! (i - n)) \<and>
     (\<forall>j < i - n. \<not> field_matches kws (rv ! j))"
proof (induction rv arbitrary: n)
  case Nil
  then show ?case by simp
next
  case (Cons v rv)
  show ?case
  proof (cases "field_matches kws v")
    case True
    then show ?thesis by (cases "i = n") (auto simp: nth_Cons')
  next
    case False
    have "first_match kws n (v # rv) = Some i \<longleftrightarrow> first_match kws (Suc n) rv = Some i"
      using False by simp
    also have "\<dots> \<longleftrightarrow> Suc n \<le> i \<and> i - Suc n < length rv \<and> field_matches kws (rv ! (i - Suc n)) \<and>
       (\<forall>j < i - Suc n. \<not> field_matches kws (rv ! j))"
      by (rule Cons.IH)
    also have "\<dots> \<longleftrightarrow> n \<le> i \<and> i - n < length (v # rv) \<and> field_matches kws ((v # rv) ! (i - n)) \<and>
       (\<forall>j < i - n. \<not> field_matches kws ((v # rv) ! j))"
    proof (cases "Suc n \<le> i")
      case le: True
      then obtain m where m: "i - n = Suc m" "i - Suc n = m" by (metis Suc_diff_Suc Suc_le_lessD)
      have "(\<forall>j < Suc m. \<not> field_matches kws ((v # rv) ! j)) \<longleftrightarrow> (\<forall>j < m. \<not> field_matches kws (rv ! j))"
        using False by (auto simp: less_Suc_eq_0_disj)
      with le m show ?thesis by auto
    next
      case nle: False
      then have "i \<le> n" by simp
      with False nle show ?thesis by auto
    qed
    finally show ?thesis .
  qed
qed

lemma distinct_keys_init: "distinct (map fst (mapping_keywords OrderProcessor_init))"
  by (simp add: OrderProcessor_init_def fdefs)

text \<open>
  Claim C3, as amended. For every header row and every standard field of
  \<open>mapping_keywords\<close>, the header map assigns to the field the first column whose
  lower-cased text contains one of the alias keywords of the field, and no column if
  there is none. The fields are assigned independently of each other: the order of the
  fields plays no part, and one column may be assigned to several fields.
\<close>

theorem create_header_map_first_column:
  assumes "(k, kws) \<in> set (mapping_keywords OrderProcessor_init)"
  shows "map_of (create_header_map OrderProcessor_init row_values) k = Some i \<longleftrightarrow>
           i < length row_values \<and> field_matches kws (row_values ! i) \<and>
           (\<forall>j < i. \<not> field_matches kws (row_values ! j))"
proof -
  have "map_of (mapping_keywords OrderProcessor_init) k = Some kws"
    using assms distinct_keys_init by simp
  then have "map_of (create_header_map OrderProcessor_init row_values) k = first_match kws 0 row_values"
    by (simp add: create_header_map_def scan_columns_lookup[OF distinct_keys_init])
  then show ?thesis by (simp add: first_match_iff)
qed

text \<open>
  Claim C3 as stated fails: in the row with the single header cell \<open>Unit Price\<close>,
  column 0 is assigned both to the unit field (keyword \<open>unit\<close>) and to the unit-price
  field (keyword \<open>price\<close>).
\<close>

theorem create_header_map_shared_column:
  "map_of (create_header_map OrderProcessor_init [asc ''Unit Price'']) f_unit = Some 0 \<and>
   map_of (create_header_map OrderProcessor_init [asc ''Unit Price'']) f_price = Some 0 \<and>
   f_unit \<noteq> f_price"
  by (simp add: create_header_map_def OrderProcessor_init_def lower_def lower_cp_def asc_def fdefs)

text \<open>The amended claim C3 at the row \<open>Qty\<close>, \<open>Unit Price\<close> and the unit-price field.\<close>

theorem create_header_map_first_column_witness:
  "(f_price, [[0x5355, 0x4EF7], asc ''price'', asc ''unit price'', [0x62A5, 0x4EF7, 0x5355, 0x4EF7]])
      \<in> set (mapping_keywords OrderProcessor_init) \<and>
   map_of (create_header_map OrderProcessor_init [asc ''Qty'', asc ''Unit Price'']) f_price = Some 1"
proof -
  have m: "(f_price, [[0x5355, 0x4EF7], asc ''price'', asc ''unit price'', [0x62A5, 0x4EF7, 0x5355, 0x4EF7]])
      \<in> set (mapping_keywords OrderProcessor_init)"
    by (simp add: OrderProcessor_init_def)
  have "1 < length [asc ''Qty'', asc ''Unit Price''] \<and>
        field_matches [[0x5355, 0x4EF7], asc ''price'', asc ''unit price'', [0x62A5, 0x4EF7, 0x5355, 0x4EF7]] ([asc ''Qty'', asc ''Unit Price''] ! 1) \<and>
        (\<forall>j < 1. \<not> field_matches [[0x5355, 0x4EF7], asc ''price'', asc ''unit price'', [0x62A5, 0x4EF7, 0x5355, 0x4EF7]] ([asc ''Qty'', asc ''Unit Price''] ! j))"
    by (simp add: field_matches_def lower_def lower_cp_def asc_def)
  with create_header_map_first_column[OF m, of "[asc ''Qty'', asc ''Unit Price'']" 1] m
  show ?thesis by blast
qed

section \<open>Properties of safe_float\<close>

text \<open>
  Claim C8. \<open>safe_float\<close> returns a float on every argument: whether the body of its
  \<open>try\<close> block returns a value or raises, the call returns, with \<open>0.0\<close> in the second
  case. It returns \<open>0.0\<close> for \<open>None\<close>, for a text that is empty once the surrounding
  white space is stripped, and for a text that \<open>float\<close> rejects once the white space and
  the commas are removed; otherwise it returns the number that \<open>float\<close> reads from the
  stripped text without its commas.
\<close>

theorem safe_float_never_raises:
  "((\<exists>v. safe_float_try L x = Inr v \<and> safe_float L x = v) \<or>
    (\<exists>e. safe_float_try L x = Inl e \<and> safe_float L x = float_zero L)) \<and>
   safe_float L PNone = float_zero L \<and>
   (strip (py_str L x1) = [] \<longrightarrow> safe_float L x1 = float_zero L) \<and>
   (float_of_str L (remove_commas (strip (py_str L x2))) = None \<longrightarrow>
      safe_float L x2 = float_zero L) \<and>
   (x3 \<noteq> PNone \<and> strip (py_str L x3) \<noteq> [] \<and>
    float_of_str L (remove_commas (strip (py_str L x3))) = Some v3 \<longrightarrow>
      safe_float L x3 = v3)"
  by (cases "safe_float_try L x")
     (auto simp: safe_float_def safe_float_try_def Let_def split: option.splits)

text \<open>Claim C8 on the cells \<open>"   "\<close>, \<open>"n/a"\<close> and \<open>" 1,234.5 "\<close>, with the decimal instance.\<close>

lemmas dec_eval = safe_float_def safe_float_try_def dec_float_def py_str_def strip_def isspace_def
  remove_commas_def asc_def dec_of_str_def dec_unsigned_def

theorem safe_float_never_raises_witness:
  "strip (py_str dec_float (PStr (asc ''   ''))) = [] \<and>
   safe_float dec_float (PStr (asc ''   '')) = float_zero dec_float \<and>
   float_of_str dec_float (remove_commas (strip (py_str dec_float (PStr (asc ''n/a''))))) = None \<and>
   safe_float dec_float (PStr (asc ''n/a'')) = float_zero dec_float \<and>
   PStr (asc '' 1,234.5 '') \<noteq> (PNone :: rat pyval) \<and>
   strip (py_str dec_float (PStr (asc '' 1,234.5 ''))) \<noteq> [] \<and>
   float_of_str dec_float (remove_commas (strip (py_str dec_float (PStr (asc '' 1,234.5 ''))))) =
     Some (2469 / 2) \<and>
   safe_float dec_float (PStr (asc '' 1,234.5 '')) = 2469 / 2"
proof -
  have a: "strip (py_str dec_float (PStr (asc ''   ''))) = []"
    by (simp add: dec_eval)
  have b: "float_of_str dec_float (remove_commas (strip (py_str dec_float (PStr (asc ''n/a''))))) = None"
    by (simp add: dec_eval)
  have c: "float_of_str dec_float (remove_commas (strip (py_str dec_float (PStr (asc '' 1,234.5 ''))))) =
     Some (2469 / 2)"
    by (simp add: dec_eval)
  have d: "strip (py_str dec_float (PStr (asc '' 1,234.5 ''))) \<noteq> []"
    by (simp add: dec_eval)
  from safe_float_never_raises[of dec_float "PStr (asc ''   '')" "PStr (asc ''   '')" "PStr (asc ''n/a'')"
        "PStr (asc '' 1,234.5 '')" "2469 / 2"] a b c d
  show ?thesis by simp
qed

section \<open>Properties of the row scan\<close>

lemma sections_add_item [simp]: "sections (add_item L self gid rv st) = sections st"
  by (simp add: add_item_def Let_def split: option.splits)

lemma sections_switch_section:
  "sections (switch_section self t st) = sections st \<or>
   sections (switch_section self t st) = close_section st"
  by (simp add: switch_section_def split: option.splits)

lemma close_section_nonempty:
  "sections_nonempty (sections st) \<Longrightarrow> sections_nonempty (close_section st)"
  by (simp add: close_section_def sections_nonempty_def split: option.splits)

lemma scan_row_nonempty:
  "sections_nonempty (sections st) \<Longrightarrow> sections_nonempty (sections (scan_row L self gid st row))"
  using sections_switch_section[of self "join (asc '' '') (map strip row)" st]
  by (auto simp: scan_row_def Let_def close_section_nonempty)

lemma foldl_scan_row_nonempty:
  "sections_nonempty (sections st) \<Longrightarrow>
   sections_nonempty (sections (foldl (scan_row L self gid) st df))"
  by (induction df arbitrary: st) (simp_all add: scan_row_nonempty)

text \<open>
  Claim C4. Every section that \<open>parse_file_to_sections\<close> returns holds at least one
  record: a section is appended to the result only where its data frame is not empty,
  both when the next section opens and at the end of the file.
\<close>

theorem parse_df_sections_nonempty:
  "\<forall>s \<in> set (parse_df L self df). data_rows s \<noteq> []"
proof -
  have start: "sections_nonempty (sections (scan_start :: 'a scan_state))"
    by (simp add: scan_start_def sections_nonempty_def)
  have "sections_nonempty (parse_df L self df)"
  proof (cases "df_empty df")
    case True
    then show ?thesis by (simp add: parse_df_def sections_nonempty_def)
  next
    case False
    have "sections_nonempty
            (close_section (foldl (scan_row L self (find_global_id self unknown_order_no df))
               scan_start df))"
      by (rule close_section_nonempty, rule foldl_scan_row_nonempty, rule start)
    with False show ?thesis by (simp add: parse_df_def)
  qed
  then show ?thesis by (simp add: sections_nonempty_def list_all_iff)
qed

lemma order_no_add_item:
  "current_section st = Some s \<Longrightarrow>
   \<exists>s'. current_section (add_item L self gid rv st) = Some s' \<and> order_no s' = order_no s"
  by (simp add: add_item_def Let_def split: option.splits)

text \<open>
  Claim C1, as amended. A row that the header test accepts only replaces the header map:
  it emits no section and leaves the order number of the active section alone, whatever
  order number its text contains. On every other row the order-number pattern is searched
  in the full text of the row, and a token that differs from the order number of the
  active section (or any token when no section is active) closes the active section and
  opens a section with that order number.
\<close>

theorem scan_row_order_no_search:
  "(is_header_row (row_text row) \<longrightarrow>
      sections (scan_row L self gid st row) = sections st \<and>
      map_option order_no (current_section (scan_row L self gid st row)) =
        map_option order_no (current_section st)) \<and>
   (\<not> is_header_row (row_text row') \<and> order_no_pattern self (row_text row') = Some t \<and>
    t \<noteq> [] \<and> (\<forall>s. current_section st' = Some s \<longrightarrow> order_no s \<noteq> t) \<longrightarrow>
      sections (scan_row L self gid st' row') = close_section st' \<and>
      (\<exists>s'. current_section (scan_row L self gid st' row') = Some s' \<and> order_no s' = t))"
proof -
  have hdr: "sections (scan_row L self gid st row) = sections st \<and>
      map_option order_no (current_section (scan_row L self gid st row)) =
        map_option order_no (current_section st)"
    if "is_header_row (row_text row)"
    using that by (cases "current_section st") (simp_all add: scan_row_def row_text_def Let_def)
  have dat: "sections (scan_row L self gid st' row') = close_section st' \<and>
      (\<exists>s'. current_section (scan_row L self gid st' row') = Some s' \<and> order_no s' = t)"
    if a: "\<not> is_header_row (row_text row') \<and> order_no_pattern self (row_text row') = Some t \<and>
      t \<noteq> [] \<and> (\<forall>s. current_section st' = Some s \<longrightarrow> order_no s \<noteq> t)"
  proof -
    define st1 where "st1 = switch_section self (row_text row') st'"
    from a have sw: "sections st1 = close_section st' \<and>
       (\<exists>s. current_section st1 = Some s \<and> order_no s = t)"
      by (auto simp: st1_def switch_section_def split: option.splits)
    then obtain s where s: "current_section st1 = Some s" "order_no s = t" by blast
    from order_no_add_item[OF s(1), of L self gid "map strip row'"] s(2)
    have "\<exists>s'. current_section (add_item L self gid (map strip row') st1) = Some s' \<and> order_no s' = t"
      by auto
    moreover have "scan_row L self gid st' row' = add_item L self gid (map strip row') st1"
      using a by (simp add: scan_row_def row_text_def st1_def Let_def)
    ultimately show ?thesis using sw by simp
  qed
  from hdr dat show ?thesis by blast
qed

lemma find_global_id_none:
  "(\<forall>row \<in> set df. order_no_pattern self (join (asc '' '') row) = None) \<Longrightarrow>
   find_global_id self d df = d"
  by (induction df) simp_all

lemma find_global_id_first:
  "i < length df \<Longrightarrow> order_no_pattern self (join (asc '' '') (df ! i)) = Some t \<Longrightarrow>
   (\<forall>j < i. order_no_pattern self (join (asc '' '') (df ! j)) = None) \<Longrightarrow>
   find_global_id self d df = t"
proof (induction df arbitrary: i)
  case Nil
  then show ?case by simp
next
  case (Cons row df)
  show ?case
  proof (cases i)
    case 0
    with Cons.prems show ?thesis by simp
  next
    case (Suc k)
    with Cons.prems have "order_no_pattern self (join (asc '' '') row) = None" by auto
    moreover from Cons.prems Suc have "find_global_id self d df = t"
      by (intro Cons.IH[of k]) auto
    ultimately show ?thesis by simp
  qed
qed

text \<open>
  Claim C2, as amended. When an item row arrives while no section is active, the implicit
  section takes the order number \<open>global_id\<close> that the first loop computed: the first
  token of the file in row order, wherever in the file that row is (the rows after the
  current one and the header rows included), and the sentinel when no row of the file
  has a token.
\<close>

theorem implicit_section_order_no:
  "(current_section st = None \<and> header_map_var st = Some h_map \<and> h_map \<noteq> [] \<and>
    \<not> is_header_row (row_text row) \<and> order_no_pattern self (row_text row) = None \<and>
    dict_get (map_row_to_std (map strip row) h_map) f_name [] \<noteq> [] \<and>
    dict_get (map_row_to_std (map strip row) h_map) f_name [] \<notin> set name_placeholders \<longrightarrow>
      (\<exists>s. current_section (scan_row L self (find_global_id self unknown_order_no df) st row) = Some s \<and>
           order_no s = find_global_id self unknown_order_no df)) \<and>
   (i < length df' \<and> order_no_pattern self (join (asc '' '') (df' ! i)) = Some t \<and>
    (\<forall>j < i. order_no_pattern self (join (asc '' '') (df' ! j)) = None) \<longrightarrow>
      find_global_id self unknown_order_no df' = t) \<and>
   ((\<forall>r \<in> set df''. order_no_pattern self (join (asc '' '') r) = None) \<longrightarrow>
      find_global_id self unknown_order_no df'' = unknown_order_no)"
  using find_global_id_first[of i df' self t unknown_order_no]
        find_global_id_none[of df'' self unknown_order_no]
  by (auto simp: scan_row_def row_text_def switch_section_def add_item_def Let_def)

subsection \<open>The scan on the example grids\<close>

lemmas scan_eval = parse_df_def df_empty_def scan_row_def row_text_def is_header_row_def add_item_def
  switch_section_def close_section_def scan_start_def create_header_map_def map_row_to_std_def
  filtered_item_def derive_info_def blank_empty_word_def dict_get_def str_or_none_def
  name_placeholders_def empty_words_def unknown_order_no_def default_info_def
  order_no_match_def is_digit_def ic_letter_def ic_A_Z_def date_match_def sep_digits_def
  normalize_unit_def UNIT_MAP_def lower_def lower_cp_def OrderProcessor_init_def fdefs dec_eval
  dec_round2_def round_half_even_def dec_to_int_def Let_def

text \<open>
  Claim C1 as stated fails on \<open>grid_c1\<close>: its second row passes the header test and
  contains the new order number \<open>XIDP-2222222222\<close>, yet the only section of the result
  is the one of \<open>XIDP-1111111111\<close>, and the item row went to it.
\<close>

theorem header_row_hides_order_no:
  "is_header_row (row_text (grid_c1 ! 1)) \<and>
   order_no_search (row_text (grid_c1 ! 1)) = Some (asc ''XIDP-2222222222'') \<and>
   map order_no (parse_df dec_float OrderProcessor_init grid_c1) = [asc ''XIDP-1111111111''] \<and>
   map (\<lambda>s. length (data_rows s)) (parse_df dec_float OrderProcessor_init grid_c1) = [1]"
  by (simp add: grid_c1_def scan_eval)

text \<open>
  Claim C2 as stated fails. On \<open>grid_c2\<close> the most recent token before the item row is
  \<open>XIDP-2222222222\<close>, and the implicit section gets the first token of the file,
  \<open>XIDP-1111111111\<close>. On \<open>grid_c2b\<close> no token precedes the item row, and the implicit
  section gets the token of a later row instead of the sentinel.
\<close>

theorem implicit_section_first_token:
  "order_no_search (row_text (grid_c2 ! 0)) = Some (asc ''XIDP-1111111111'') \<and>
   order_no_search (row_text (grid_c2 ! 1)) = Some (asc ''XIDP-2222222222'') \<and>
   map order_no (parse_df dec_float OrderProcessor_init grid_c2) = [asc ''XIDP-1111111111''] \<and>
   order_no_search (row_text (grid_c2b ! 0)) = None \<and>
   order_no_search (row_text (grid_c2b ! 1)) = None \<and>
   map order_no (parse_df dec_float OrderProcessor_init grid_c2b) = [asc ''XIDP-3333333333'']"
  by (simp add: grid_c2_def grid_c2b_def scan_eval)

text \<open>
  Claim C10. The pattern matches in either case, the token is kept as it is written, and
  tokens are compared as they are: on \<open>grid_c10\<close> the lower-case occurrence of the
  order number closes the section of the upper-case occurrence and opens a second section,
  whose order number differs from the first only in case.
\<close>

theorem order_no_case_splits_section:
  "map order_no (parse_df dec_float OrderProcessor_init grid_c10) =
     [asc ''XIDP-1234567890'', asc ''xidp-1234567890''] \<and>
   map (\<lambda>s. length (data_rows s)) (parse_df dec_float OrderProcessor_init grid_c10) = [1, 1] \<and>
   asc ''XIDP-1234567890'' \<noteq> asc ''xidp-1234567890'' \<and>
   lower (asc ''XIDP-1234567890'') = lower (asc ''xidp-1234567890'')"
  by (simp add: grid_c10_def scan_eval)

text \<open>Claim C4 on \<open>grid_c10\<close>, whose result has two sections.\<close>

theorem parse_df_sections_nonempty_witness:
  "parse_df dec_float OrderProcessor_init grid_c10 \<noteq> [] \<and>
   sections_nonempty (parse_df dec_float OrderProcessor_init grid_c10)"
proof -
  have "map order_no (parse_df dec_float OrderProcessor_init grid_c10) \<noteq> []"
    by (simp add: grid_c10_def scan_eval)
  then have "parse_df dec_float OrderProcessor_init grid_c10 \<noteq> []" by auto
  with parse_df_sections_nonempty[of dec_float OrderProcessor_init grid_c10]
  show ?thesis by (simp add: sections_nonempty_def list_all_iff)
qed

text \<open>
  The amended claim C1 on a header row that carries an order number and on an
  order-number row, both scanned from the start state.
\<close>

theorem scan_row_order_no_search_witness:
  "is_header_row (row_text [f_name, f_qty, asc ''XIDP-2222222222'']) \<and>
   sections (scan_row dec_float OrderProcessor_init unknown_order_no scan_start
               [f_name, f_qty, asc ''XIDP-2222222222'']) = sections scan_start \<and>
   map_option order_no
     (current_section (scan_row dec_float OrderProcessor_init unknown_order_no scan_start
                         [f_name, f_qty, asc ''XIDP-2222222222''])) =
     map_option order_no (current_section (scan_start :: rat scan_state)) \<and>
   \<not> is_header_row (row_text [asc ''XIDP-1111111111'', []]) \<and>
   order_no_pattern OrderProcessor_init (row_text [asc ''XIDP-1111111111'', []]) =
     Some (asc ''XIDP-1111111111'') \<and>
   (\<exists>s'. current_section (scan_row dec_float OrderProcessor_init unknown_order_no scan_start
                            [asc ''XIDP-1111111111'', []]) = Some s' \<and>
         order_no s' = asc ''XIDP-1111111111'')"
proof -
  have h1: "is_header_row (row_text [f_name, f_qty, asc ''XIDP-2222222222''])"
    by (simp add: row_text_def is_header_row_def strip_def isspace_def asc_def fdefs)
  have h2: "\<not> is_header_row (row_text [asc ''XIDP-1111111111'', []])"
    by (simp add: row_text_def is_header_row_def strip_def isspace_def asc_def)
  have h3: "order_no_pattern OrderProcessor_init (row_text [asc ''XIDP-1111111111'', []]) =
     Some (asc ''XIDP-1111111111'')"
    by (simp add: OrderProcessor_init_def row_text_def strip_def isspace_def asc_def
        order_no_match_def is_digit_def ic_letter_def ic_A_Z_def Let_def)
  have h4: "asc ''XIDP-1111111111'' \<noteq> []" by (simp add: asc_def)
  have h5: "\<forall>s. current_section (scan_start :: rat scan_state) = Some s \<longrightarrow>
              order_no s \<noteq> asc ''XIDP-1111111111''"
    by (simp add: scan_start_def)
  from scan_row_order_no_search[where row = "[f_name, f_qty, asc ''XIDP-2222222222'']"
      and L = dec_float and self = OrderProcessor_init and gid = unknown_order_no
      and st = scan_start and row' = "[asc ''XIDP-1111111111'', []]"
      and t = "asc ''XIDP-1111111111''" and st' = scan_start] h1 h2 h3 h4 h5
  show ?thesis by blast
qed

text \<open>
  The amended claim C2 on the item row of \<open>grid_c2b\<close>, scanned after the header row,
  and on the first loop over \<open>grid_c2b\<close> and over a grid with no token.
\<close>

theorem implicit_section_order_no_witness:
  "\<not> is_header_row (row_text [asc ''bolt'', asc ''3'']) \<and>
   order_no_pattern OrderProcessor_init (row_text [asc ''bolt'', asc ''3'']) = None \<and>
   (\<exists>s. current_section
          (scan_row dec_float OrderProcessor_init
             (find_global_id OrderProcessor_init unknown_order_no grid_c2b)
             \<lparr> sections = [], current_section = None,
               header_map_var = Some [(f_name, 0), (f_qty, 1)] \<rparr>
             [asc ''bolt'', asc ''3'']) = Some s \<and>
        order_no s = find_global_id OrderProcessor_init unknown_order_no grid_c2b) \<and>
   order_no_pattern OrderProcessor_init (join (asc '' '') (grid_c2b ! 2)) =
     Some (asc ''XIDP-3333333333'') \<and>
   find_global_id OrderProcessor_init unknown_order_no grid_c2b = asc ''XIDP-3333333333'' \<and>
   find_global_id OrderProcessor_init unknown_order_no [[asc ''bolt'']] = unknown_order_no"
proof -
  define st :: "rat scan_state" where
    "st = \<lparr> sections = [], current_section = None,
            header_map_var = Some [(f_name, 0), (f_qty, 1)] \<rparr>"
  have a1: "current_section st = None \<and> header_map_var st = Some [(f_name, 0), (f_qty, 1)] \<and>
            [(f_name, 0), (f_qty, 1::nat)] \<noteq> []"
    by (simp add: st_def)
  have a2: "\<not> is_header_row (row_text [asc ''bolt'', asc ''3''])"
    by (simp add: row_text_def is_header_row_def strip_def isspace_def asc_def)
  have a3: "order_no_pattern OrderProcessor_init (row_text [asc ''bolt'', asc ''3'']) = None"
    by (simp add: OrderProcessor_init_def row_text_def strip_def isspace_def asc_def
        order_no_match_def ic_letter_def)
  have a4: "dict_get (map_row_to_std (map strip [asc ''bolt'', asc ''3'']) [(f_name, 0), (f_qty, 1)])
              f_name [] = asc ''bolt''"
    by (simp add: dict_get_def map_row_to_std_def strip_def isspace_def asc_def fdefs)
  have a5: "asc ''bolt'' \<noteq> [] \<and> asc ''bolt'' \<notin> set name_placeholders"
    by (simp add: name_placeholders_def asc_def)
  have b1: "(2::nat) < length grid_c2b" by (simp add: grid_c2b_def)
  have b2: "order_no_pattern OrderProcessor_init (join (asc '' '') (grid_c2b ! 2)) =
              Some (asc ''XIDP-3333333333'')"
    by (simp add: grid_c2b_def OrderProcessor_init_def asc_def
        order_no_match_def is_digit_def ic_letter_def ic_A_Z_def Let_def)
  have b3: "\<forall>j < 2. order_no_pattern OrderProcessor_init (join (asc '' '') (grid_c2b ! j)) = None"
    by (simp add: grid_c2b_def OrderProcessor_init_def asc_def fdefs
        order_no_match_def ic_letter_def less_Suc_eq numeral_2_eq_2)
  have c1: "\<forall>r \<in> set [[asc ''bolt'']]. order_no_pattern OrderProcessor_init (join (asc '' '') r) = None"
    by (simp add: OrderProcessor_init_def asc_def order_no_match_def ic_letter_def)
  note T = implicit_section_order_no[where st = st and h_map = "[(f_name, 0), (f_qty, 1)]"
      and row = "[asc ''bolt'', asc ''3'']" and self = OrderProcessor_init and L = dec_float
      and df = grid_c2b and i = 2 and df' = grid_c2b and t = "asc ''XIDP-3333333333''"
      and df'' = "[[asc ''bolt'']]"]
  from T a1 a2 a3 a4 a5
  have e1: "\<exists>s. current_section
          (scan_row dec_float OrderProcessor_init
             (find_global_id OrderProcessor_init unknown_order_no grid_c2b) st
             [asc ''bolt'', asc ''3'']) = Some s \<and>
        order_no s = find_global_id OrderProcessor_init unknown_order_no grid_c2b"
    by metis
  from T b1 b2 b3
  have e2: "find_global_id OrderProcessor_init unknown_order_no grid_c2b = asc ''XIDP-3333333333''"
    by blast
  from T c1
  have e3: "find_global_id OrderProcessor_init unknown_order_no [[asc ''bolt'']] = unknown_order_no"
    by blast
  show ?thesis
    by (intro conjI) (rule a2 a3 e1[unfolded st_def] b2 e2 e3)+
qed

section \<open>Properties of the loader\<close>

lemma try_encodings_none:
  "(\<forall>enc \<in> set encs. read_csv io p enc = None) \<Longrightarrow> try_encodings io p encs = None"
  by (induction encs) simp_all

text \<open>
  Claim C7, as amended. For every path the loader returns a grid and never raises: an
  exception of the body is turned into the empty grid. When every reader that the body
  tries fails (for a path ending in \<open>.csv\<close>: every candidate encoding, and then the
  spreadsheet reader, to which the body falls through; for another path: the spreadsheet
  reader), the result is the empty grid. When every CSV encoding fails and the
  spreadsheet reader succeeds on the path, the result is the grid of that reader.
  \<open>parse_file_to_sections\<close> maps an empty grid to the empty list of sections.
\<close>

theorem read_excel_smart_never_raises:
  "(\<exists>df. read_excel_smart io p = Inr df) \<and>
   (read_excel_smart_try io p = Inl e \<longrightarrow> read_excel_smart io p = Inr []) \<and>
   ((\<forall>enc \<in> set csv_encodings. read_csv io p1 enc = None) \<and> read_excel io p1 = None \<longrightarrow>
      read_excel_smart io p1 = Inr []) \<and>
   ((\<forall>enc \<in> set csv_encodings. read_csv io p2 enc = None) \<and> read_excel io p2 = Some df2 \<longrightarrow>
      read_excel_smart io p2 = Inr df2) \<and>
   (df_empty df3 \<longrightarrow> parse_df L self df3 = []) \<and>
   (read_excel_smart io p4 = Inr df4 \<and> df_empty df4 \<longrightarrow>
      parse_file_to_sections L io self p4 = Inr [])"
proof -
  have a: "\<exists>df. read_excel_smart io p = Inr df"
    by (cases "read_excel_smart_try io p") (simp_all add: read_excel_smart_def)
  have b: "read_excel_smart_try io p = Inl e \<longrightarrow> read_excel_smart io p = Inr []"
    by (simp add: read_excel_smart_def)
  have c: "read_excel_smart io p1 = Inr []"
    if "(\<forall>enc \<in> set csv_encodings. read_csv io p1 enc = None) \<and> read_excel io p1 = None"
    using that try_encodings_none[of csv_encodings io p1]
    by (simp add: read_excel_smart_def read_excel_smart_try_def)
  have d: "read_excel_smart io p2 = Inr df2"
    if "(\<forall>enc \<in> set csv_encodings. read_csv io p2 enc = None) \<and> read_excel io p2 = Some df2"
    using that try_encodings_none[of csv_encodings io p2]
    by (simp add: read_excel_smart_def read_excel_smart_try_def)
  have e: "df_empty df3 \<longrightarrow> parse_df L self df3 = []"
    by (simp add: parse_df_def)
  have f: "read_excel_smart io p4 = Inr df4 \<and> df_empty df4 \<longrightarrow>
      parse_file_to_sections L io self p4 = Inr []"
    by (simp add: parse_file_to_sections_def parse_df_def)
  from a b c d e f show ?thesis by blast
qed

lemmas io_eval = read_excel_smart_def read_excel_smart_try_def csv_encodings_def endswith_def
  io_excel_only_def io_unreadable_def asc_def df_empty_def

text \<open>
  Claim C7 as stated fails on \<open>io_excel_only\<close>: the path ends in \<open>.csv\<close>, every
  candidate encoding fails, and the loader returns the non-empty grid of the spreadsheet
  reader.
\<close>

theorem csv_falls_through_to_excel:
  "endswith (asc ''orders.csv'') (asc ''.csv'') \<and>
   list_all (\<lambda>enc. read_csv io_excel_only (asc ''orders.csv'') enc = None) csv_encodings \<and>
   read_excel_smart io_excel_only (asc ''orders.csv'') = Inr [[asc ''a'']] \<and>
   \<not> df_empty [[asc ''a'']]"
  by (simp add: io_eval)

text \<open>The amended claim C7 on the path \<open>orders.csv\<close> in the two file systems.\<close>

theorem read_excel_smart_never_raises_witness:
  "read_excel_smart_try io_unreadable (asc ''orders.csv'') = Inl ReadError \<and>
   list_all (\<lambda>enc. read_csv io_unreadable (asc ''orders.csv'') enc = None) csv_encodings \<and>
   read_excel io_unreadable (asc ''orders.csv'') = None \<and>
   read_excel_smart io_unreadable (asc ''orders.csv'') = Inr [] \<and>
   list_all (\<lambda>enc. read_csv io_excel_only (asc ''orders.csv'') enc = None) csv_encodings \<and>
   read_excel io_excel_only (asc ''orders.csv'') = Some [[asc ''a'']] \<and>
   read_excel_smart io_excel_only (asc ''orders.csv'') = Inr [[asc ''a'']] \<and>
   df_empty [] \<and>
   parse_df dec_float OrderProcessor_init [] = [] \<and>
   parse_file_to_sections dec_float io_unreadable OrderProcessor_init (asc ''orders.csv'') = Inr []"
proof -
  have h1: "read_excel_smart_try io_unreadable (asc ''orders.csv'') = Inl ReadError"
    by (simp add: io_eval)
  have h2: "\<forall>enc \<in> set csv_encodings. read_csv io_unreadable (asc ''orders.csv'') enc = None"
    by (simp add: io_unreadable_def)
  have h3: "read_excel io_unreadable (asc ''orders.csv'') = None"
    by (simp add: io_unreadable_def)
  have h4: "\<forall>enc \<in> set csv_encodings. read_csv io_excel_only (asc ''orders.csv'') enc = None"
    by (simp add: io_excel_only_def)
  have h5: "read_excel io_excel_only (asc ''orders.csv'') = Some [[asc ''a'']]"
    by (simp add: io_excel_only_def)
  have h6: "df_empty []" by (simp add: df_empty_def)
  note T1 = read_excel_smart_never_raises[where io = io_unreadable and p = "asc ''orders.csv''"
      and e = ReadError and ?p1.0 = "asc ''orders.csv''" and ?df3.0 = "[]" and L = dec_float
      and self = OrderProcessor_init and ?p4.0 = "asc ''orders.csv''" and ?df4.0 = "[]"]
  note T2 = read_excel_smart_never_raises[where io = io_excel_only and ?p2.0 = "asc ''orders.csv''"
      and ?df2.0 = "[[asc ''a'']]"]
  from T1 h1 h2 h3 have r1: "read_excel_smart io_unreadable (asc ''orders.csv'') = Inr []" by blast
  from T2 h4 h5 have r2: "read_excel_smart io_excel_only (asc ''orders.csv'') = Inr [[asc ''a'']]"
    by blast
  from T1 h6 have r3: "parse_df dec_float OrderProcessor_init [] = []" by blast
  from T1 r1 h6
  have r4: "parse_file_to_sections dec_float io_unreadable OrderProcessor_init (asc ''orders.csv'') = Inr []"
    by blast
  from h2 have h2': "list_all (\<lambda>enc. read_csv io_unreadable (asc ''orders.csv'') enc = None) csv_encodings"
    by (simp add: list_all_iff)
  from h4 have h4': "list_all (\<lambda>enc. read_csv io_excel_only (asc ''orders.csv'') enc = None) csv_encodings"
    by (simp add: list_all_iff)
  show ?thesis
    by (intro conjI) (rule h1 h2' h3 r1 h4' h5 r2 h6 r3 r4)+
qed

section \<open>Properties of the projected record\<close>






section \<open>Properties of the export\<close>

lemma item_rows_append [simp]: "item_rows (xs @ ys) = item_rows xs @ item_rows ys"
  by (induction xs rule: item_rows.induct) simp_all

lemma write_record_inv:
  "one_row_per_key (fst sw) \<Longrightarrow> write_record X L self ono sw row = Inr sw' \<Longrightarrow>
   one_row_per_key (fst sw') \<and>
   seen_rows (fst sw') = insert (row_sig L ono row) (seen_rows (fst sw))"
  by (auto simp: write_record_def one_row_per_key_def split: if_splits)

lemma write_records_inv:
  "one_row_per_key (fst sw) \<Longrightarrow> write_records X L self ono sw rows = Inr sw' \<Longrightarrow>
   one_row_per_key (fst sw') \<and>
   seen_rows (fst sw') = seen_rows (fst sw) \<union> row_sig L ono ` set rows"
proof (induction rows arbitrary: sw)
  case Nil
  then show ?case by simp
next
  case (Cons row rows)
  from Cons.prems(2) obtain sw1 where
    w: "write_record X L self ono sw row = Inr sw1" and
    r: "write_records X L self ono sw1 rows = Inr sw'"
    by (auto split: sum.splits)
  from write_record_inv[OF Cons.prems(1) w]
  have a: "one_row_per_key (fst sw1)"
    and b: "seen_rows (fst sw1) = insert (row_sig L ono row) (seen_rows (fst sw))"
    by auto
  from Cons.IH[OF a r] b show ?case by auto
qed

lemma finish_section_inv [simp]:
  "one_row_per_key (finish_section sw) = one_row_per_key (fst sw)"
  "seen_rows (finish_section sw) = seen_rows (fst sw)"
  by (simp_all add: finish_section_def one_row_per_key_def)

lemma write_section_inv:
  assumes inv: "one_row_per_key st"
    and res: "write_section X L iterrows self st s = Inr st'"
  shows "one_row_per_key st' \<and>
   seen_rows st' = seen_rows st \<union> row_sig L (order_no s) ` set (iterrows (data_rows s))"
proof -
  define sw :: "'a export_state \<times> nat" where
    "sw = (st\<lparr> ws := ws st @ [(curr_row st, InfoRow (date s) (info s) (order_no s))],
               curr_row := curr_row st + 1 \<rparr>, 0)"
  from inv have i1: "one_row_per_key (fst sw)" and s1: "seen_rows (fst sw) = seen_rows st"
    by (simp_all add: sw_def one_row_per_key_def)
  from res obtain sw' where
    w: "write_records X L self (order_no s) sw (iterrows (data_rows s)) = Inr sw'" and
    f: "st' = finish_section sw'"
    unfolding write_section_def sw_def by (auto split: if_splits sum.splits)
  from write_records_inv[OF i1 w] s1 f show ?thesis by simp
qed

lemma write_sections_inv:
  "one_row_per_key st \<Longrightarrow> write_sections X L iterrows self st secs = Inr st' \<Longrightarrow>
   one_row_per_key st' \<and>
   seen_rows st' =
     seen_rows st \<union> (\<lambda>p. row_sig L (fst p) (snd p)) ` set (section_records iterrows secs)"
proof (induction secs arbitrary: st)
  case Nil
  then show ?case by (simp add: section_records_def)
next
  case (Cons s secs)
  from Cons.prems(2) obtain st1 where
    w: "write_section X L iterrows self st s = Inr st1" and
    r: "write_sections X L iterrows self st1 secs = Inr st'"
    by (auto split: sum.splits)
  from write_section_inv[OF Cons.prems(1) w]
  have a: "one_row_per_key st1"
    and b: "seen_rows st1 =
      seen_rows st \<union> row_sig L (order_no s) ` set (iterrows (data_rows s))"
    by auto
  from Cons.IH[OF a r] b show ?case
    by (auto simp: section_records_def image_Un image_image)
qed

lemma section_records_append [simp]:
  "section_records iterrows (xs @ ys) = section_records iterrows xs @ section_records iterrows ys"
  by (simp add: section_records_def)

lemma run_files_inv:
  "one_row_per_key st \<Longrightarrow> run_files X L iterrows io self abort idx st files = Inr st' \<Longrightarrow>
   one_row_per_key st' \<and>
   seen_rows st' =
     seen_rows st \<union>
     (\<lambda>p. row_sig L (fst p) (snd p)) `
       set (section_records iterrows (batch_sections L io self abort idx files))"
proof (induction files arbitrary: idx st)
  case Nil
  then show ?case by (simp add: section_records_def)
next
  case (Cons fpath files)
  show ?case
  proof (cases "abort idx")
    case True
    with Cons.prems show ?thesis by (simp add: section_records_def)
  next
    case False
    with Cons.prems(2) obtain secs st1 where
      p: "parse_file_to_sections L io self fpath = Inr secs" and
      w: "write_sections X L iterrows self st secs = Inr st1" and
      r: "run_files X L iterrows io self abort (Suc idx) st1 files = Inr st'"
      by (auto split: sum.splits)
    from write_sections_inv[OF Cons.prems(1) w]
    have a: "one_row_per_key st1"
      and b: "seen_rows st1 =
        seen_rows st \<union> (\<lambda>p. row_sig L (fst p) (snd p)) ` set (section_records iterrows secs)"
      by auto
    from Cons.IH[OF a r] b False p show ?thesis by (auto simp: image_Un)
  qed
qed

lemma cells_ok_takes: "list_all (sheet_takes X) vals \<Longrightarrow> cells_ok X r c vals"
  by (induction vals arbitrary: c) (simp_all add: sheet_takes_def)

lemma item_cells_takes:
  "list_all (sheet_takes X) (record_values self row) \<Longrightarrow> (\<forall>k. sheet_takes X (PInt k)) \<Longrightarrow>
   list_all (sheet_takes X) (item_cells self n row)"
  by (auto simp: list_all_iff item_cells_def record_values_def)

lemma write_record_returns:
  "list_all (sheet_takes X) (record_values self row) \<Longrightarrow> (\<forall>k. sheet_takes X (PInt k)) \<Longrightarrow>
   \<exists>sw'. write_record X L self ono sw row = Inr sw'"
  by (simp add: write_record_def cells_ok_takes item_cells_takes)

lemma write_records_returns:
  "list_all (sheet_takes X) (concat (map (record_values self) rows)) \<Longrightarrow>
   (\<forall>k. sheet_takes X (PInt k)) \<Longrightarrow>
   \<exists>sw'. write_records X L self ono sw rows = Inr sw'"
proof (induction rows arbitrary: sw)
  case Nil
  then show ?case by simp
next
  case (Cons row rows)
  from Cons.prems have "list_all (sheet_takes X) (record_values self row)" by simp
  from write_record_returns[OF this Cons.prems(2)]
  obtain sw1 where w: "write_record X L self ono sw row = Inr sw1" by blast
  from Cons.prems have "list_all (sheet_takes X) (concat (map (record_values self) rows))" by simp
  from Cons.IH[OF this Cons.prems(2)] w show ?case by simp
qed

lemma write_section_returns:
  assumes "list_all (sheet_takes X) (section_values iterrows self s)"
    and "\<forall>k. sheet_takes X (PInt k)"
  shows "\<exists>st'. write_section X L iterrows self st s = Inr st'"
proof -
  from assms(1) have i: "cells_ok X (curr_row st) 1 [PStr (date s), PStr (info s), PStr (order_no s)]"
    and r: "list_all (sheet_takes X) (concat (map (record_values self) (iterrows (data_rows s))))"
    by (simp_all add: section_values_def sheet_takes_def)
  from write_records_returns[OF r assms(2)]
  obtain sw' where "write_records X L self (order_no s)
                (st\<lparr> ws := ws st @ [(curr_row st, InfoRow (date s) (info s) (order_no s))],
                     curr_row := curr_row st + 1 \<rparr>, 0)
                (iterrows (data_rows s)) = Inr sw'" by blast
  with i show ?thesis by (simp add: write_section_def)
qed

lemma write_sections_returns:
  "list_all (sheet_takes X) (concat (map (section_values iterrows self) secs)) \<Longrightarrow>
   (\<forall>k. sheet_takes X (PInt k)) \<Longrightarrow>
   \<exists>st'. write_sections X L iterrows self st secs = Inr st'"
proof (induction secs arbitrary: st)
  case Nil
  then show ?case by simp
next
  case (Cons s secs)
  from Cons.prems have "list_all (sheet_takes X) (section_values iterrows self s)" by simp
  from write_section_returns[OF this Cons.prems(2)]
  obtain st1 where w: "write_section X L iterrows self st s = Inr st1" by blast
  from Cons.prems have "list_all (sheet_takes X) (concat (map (section_values iterrows self) secs))"
    by simp
  from Cons.IH[OF this Cons.prems(2)] w show ?case by simp
qed

lemma parse_file_to_sections_returns:
  "\<exists>secs. parse_file_to_sections L io self fpath = Inr secs"
  by (cases "read_excel_smart_try io fpath")
     (simp_all add: parse_file_to_sections_def read_excel_smart_def)

lemma run_files_returns:
  "list_all (sheet_takes X)
     (concat (map (section_values iterrows self) (batch_sections L io self abort idx files))) \<Longrightarrow>
   (\<forall>k. sheet_takes X (PInt k)) \<Longrightarrow>
   \<exists>st'. run_files X L iterrows io self abort idx st files = Inr st'"
proof (induction files arbitrary: idx st)
  case Nil
  then show ?case by simp
next
  case (Cons fpath files)
  show ?case
  proof (cases "abort idx")
    case True
    then show ?thesis by simp
  next
    case False
    obtain secs where p: "parse_file_to_sections L io self fpath = Inr secs"
      using parse_file_to_sections_returns by blast
    from Cons.prems(1) False p
    have a: "list_all (sheet_takes X) (concat (map (section_values iterrows self) secs))"
      and b: "list_all (sheet_takes X)
         (concat (map (section_values iterrows self) (batch_sections L io self abort (Suc idx) files)))"
      by simp_all
    from write_sections_returns[OF a Cons.prems(2)]
    obtain st1 where w: "write_sections X L iterrows self st secs = Inr st1" by blast
    from Cons.IH[OF b Cons.prems(2)] False p w show ?thesis by simp
  qed
qed

text \<open>
  Claim C6. During export a record whose key (order number, item name, specification,
  quantity as text) is already in \<open>seen_rows\<close> is skipped before any cell is written:
  the sheet, the row counter and the sequence counter are as before. A record with a
  new key is written with the next sequence number and its key is added, provided the
  sheet takes its cells; otherwise the run ends with an exception. Two records have the
  same key exactly when they agree on the order number, the item name, the
  specification and the text of the quantity; the unit price is no part of the key.
  The set lives through the whole batch: when a run saves its workbook, the set holds
  the keys of all records visited in all sections and files of the batch, and the
  sheet holds exactly one item row for each of these keys. A run whose values the
  sheet takes, and whose workbook can be saved, does not end with an exception.
\<close>

theorem export_skips_seen_keys:
  "(row_sig L ono row \<in> seen_rows st \<longrightarrow> write_record X L self ono (st, n) row = Inr (st, n)) \<and>
   (row_sig L ono' row' \<notin> seen_rows st' \<longrightarrow>
      write_record X L self ono' (st', n') row' =
        (if cells_ok X (curr_row st') 1 (item_cells self n' row') then
           Inr (st'\<lparr> seen_rows := insert (row_sig L ono' row') (seen_rows st'),
                     ws := ws st' @ [(curr_row st', ItemRow (item_cells self n' row'))],
                     curr_row := curr_row st' + 1 \<rparr>, n' + 1)
         else Inl SheetError)) \<and>
   (row_sig L ono_a row_a = row_sig L ono_b row_b \<longleftrightarrow>
      ono_a = ono_b \<and> dict_get row_a f_name PNone = dict_get row_b f_name PNone \<and>
      dict_get row_a f_spec PNone = dict_get row_b f_spec PNone \<and>
      py_str L (dict_get row_a f_qty PNone) = py_str L (dict_get row_b f_qty PNone)) \<and>
   row_sig L ono_a (AList.update f_price v row_a) = row_sig L ono_a row_a \<and>
   (run X L iterrows io self abort files = Saved final \<longrightarrow>
      seen_rows final = batch_keys L iterrows io self abort files \<and>
      length (item_rows (ws final)) = card (batch_keys L iterrows io self abort files)) \<and>
   (list_all (sheet_takes X) (batch_values L iterrows io self abort files) \<and>
    (\<forall>k. sheet_takes X (PInt k)) \<and> (\<forall>sheet. wb_save X sheet) \<longrightarrow>
      (\<exists>final'. run X L iterrows io self abort files = Saved final') \<or>
      run X L iterrows io self abort files = NothingToSave)"
proof -
  have a: "row_sig L ono row \<in> seen_rows st \<longrightarrow> write_record X L self ono (st, n) row = Inr (st, n)"
    by (simp add: write_record_def)
  have b: "row_sig L ono' row' \<notin> seen_rows st' \<longrightarrow>
      write_record X L self ono' (st', n') row' =
        (if cells_ok X (curr_row st') 1 (item_cells self n' row') then
           Inr (st'\<lparr> seen_rows := insert (row_sig L ono' row') (seen_rows st'),
                     ws := ws st' @ [(curr_row st', ItemRow (item_cells self n' row'))],
                     curr_row := curr_row st' + 1 \<rparr>, n' + 1)
         else Inl SheetError)"
    by (simp add: write_record_def)
  have c: "row_sig L ono_a row_a = row_sig L ono_b row_b \<longleftrightarrow>
      ono_a = ono_b \<and> dict_get row_a f_name PNone = dict_get row_b f_name PNone \<and>
      dict_get row_a f_spec PNone = dict_get row_b f_spec PNone \<and>
      py_str L (dict_get row_a f_qty PNone) = py_str L (dict_get row_b f_qty PNone)"
    by (simp add: row_sig_def)
  have d: "row_sig L ono_a (AList.update f_price v row_a) = row_sig L ono_a row_a"
    by (simp add: row_sig_def dict_get_def update_conv' fdefs)
  have i0: "one_row_per_key (run_start self :: 'a export_state)"
    by (simp add: run_start_def one_row_per_key_def)
  have e: "run X L iterrows io self abort files = Saved final \<longrightarrow>
      seen_rows final = batch_keys L iterrows io self abort files \<and>
      length (item_rows (ws final)) = card (batch_keys L iterrows io self abort files)"
  proof
    assume "run X L iterrows io self abort files = Saved final"
    then have "run_files X L iterrows io self abort 0 (run_start self) files = Inr final"
      by (auto simp: run_def split: if_splits sum.splits)
    from run_files_inv[OF i0 this]
    show "seen_rows final = batch_keys L iterrows io self abort files \<and>
      length (item_rows (ws final)) = card (batch_keys L iterrows io self abort files)"
      by (simp add: batch_keys_def run_start_def one_row_per_key_def)
  qed
  have f: "list_all (sheet_takes X) (batch_values L iterrows io self abort files) \<and>
    (\<forall>k. sheet_takes X (PInt k)) \<and> (\<forall>sheet. wb_save X sheet) \<longrightarrow>
      (\<exists>final'. run X L iterrows io self abort files = Saved final') \<or>
      run X L iterrows io self abort files = NothingToSave"
  proof
    assume h: "list_all (sheet_takes X) (batch_values L iterrows io self abort files) \<and>
      (\<forall>k. sheet_takes X (PInt k)) \<and> (\<forall>sheet. wb_save X sheet)"
    then have h1: "cells_ok X 1 1 (map PStr (standard_columns self))"
      and h2: "list_all (sheet_takes X)
         (concat (map (section_values iterrows self) (batch_sections L io self abort 0 files)))"
      and h3: "\<forall>k. sheet_takes X (PInt k)" and h4: "\<forall>sheet. wb_save X sheet"
      by (simp_all add: batch_values_def cells_ok_takes)
    from run_files_returns[OF h2 h3]
    obtain st1 where "run_files X L iterrows io self abort 0 (run_start self) files = Inr st1"
      by blast
    with h1 h4 show "(\<exists>final'. run X L iterrows io self abort files = Saved final') \<or>
      run X L iterrows io self abort files = NothingToSave"
      by (simp add: run_def)
  qed
  from a b c d e f show ?thesis by blast
qed

lemmas export_eval = run_def run_start_def write_section_def write_record_def row_sig_def
  item_cells_def finish_section_def plain_sheet_def illegal_character_def grid_bolt_def
  io_bolt_def io_control_def parse_file_to_sections_def

lemma parse_io_bolt:
  "parse_file_to_sections dec_float io_bolt OrderProcessor_init p =
     Inr [\<lparr> order_no = asc ''XIDP-1234567890'', date = [], info = default_info,
            header_map = Some [(f_name, 0), (f_qty, 1)],
            data_rows =
              [[(f_seq, PStr []), (f_name, PStr (asc ''bolt'')), (f_spec, PStr []),
                (f_unit, PStr []), (f_qty, PInt 3), (f_price, PFloat 0), (f_amount, PFloat 0),
                (f_remark, PStr [])]] \<rparr>]"
  by (simp add: export_eval io_eval scan_eval)

lemma parse_io_control:
  "parse_file_to_sections dec_float io_control OrderProcessor_init p =
     Inr [\<lparr> order_no = asc ''XIDP-1234567890'', date = [], info = default_info,
            header_map = Some [(f_name, 0), (f_qty, 1)],
            data_rows =
              [[(f_seq, PStr []), (f_name, PStr (1 # asc ''bolt'')), (f_spec, PStr []),
                (f_unit, PStr []), (f_qty, PInt 3), (f_price, PFloat 0), (f_amount, PFloat 0),
                (f_remark, PStr [])]] \<rparr>]"
  by (simp add: export_eval io_eval scan_eval)

lemma standard_columns_init:
  "standard_columns OrderProcessor_init =
     [f_seq, f_name, f_spec, f_unit, f_qty, f_price, f_amount, f_remark]"
  by (simp add: OrderProcessor_init_def)

lemmas sheet_eval = run_def run_start_def write_section_def write_record_def row_sig_def
  item_cells_def finish_section_def plain_sheet_def illegal_character_def dict_get_def
  standard_columns_init default_info_def bolt_row_def asc_def fdefs

text \<open>
  Claim C6 on two records of one order that differ in the unit price only: the first is
  written with sequence number 1, the second is skipped, and a third record, whose name
  holds a control character, ends the run. Then on a batch of two files with the same
  sheet: two records are visited, the workbook is saved, and it has one item row.
\<close>

theorem export_skips_seen_keys_witness:
  "(\<exists>st1. write_record plain_sheet dec_float OrderProcessor_init (asc ''XIDP-1234567890'')
             (run_start OrderProcessor_init, 0) (bolt_row 3) = Inr (st1, 1) \<and>
           length (item_rows (ws st1)) = 1 \<and>
           row_sig dec_float (asc ''XIDP-1234567890'') (bolt_row 4) \<in> seen_rows st1 \<and>
           write_record plain_sheet dec_float OrderProcessor_init (asc ''XIDP-1234567890'')
             (st1, 1) (bolt_row 4) = Inr (st1, 1) \<and>
           write_record plain_sheet dec_float OrderProcessor_init (asc ''XIDP-1234567890'')
             (st1, 1) (AList.update f_name (PStr (1 # asc ''bolt'')) (bolt_row 4)) =
             Inl SheetError) \<and>
   list_all (sheet_takes plain_sheet)
     (batch_values dec_float (\<lambda>rows. rows) io_bolt OrderProcessor_init (\<lambda>idx. False)
        [asc ''a.xlsx'', asc ''b.xlsx'']) \<and>
   length (section_records (\<lambda>rows. rows)
      (batch_sections dec_float io_bolt OrderProcessor_init (\<lambda>idx. False) 0
         [asc ''a.xlsx'', asc ''b.xlsx''])) = 2 \<and>
   (\<exists>final. run plain_sheet dec_float (\<lambda>rows. rows) io_bolt OrderProcessor_init (\<lambda>idx. False)
               [asc ''a.xlsx'', asc ''b.xlsx''] = Saved final \<and>
            seen_rows final =
              batch_keys dec_float (\<lambda>rows. rows) io_bolt OrderProcessor_init (\<lambda>idx. False)
                [asc ''a.xlsx'', asc ''b.xlsx''] \<and>
            length (item_rows (ws final)) = 1 \<and>
            card (batch_keys dec_float (\<lambda>rows. rows) io_bolt OrderProcessor_init (\<lambda>idx. False)
                [asc ''a.xlsx'', asc ''b.xlsx'']) = 1)"
proof -
  define st0 :: "rat export_state" where "st0 = run_start OrderProcessor_init"
  define tok where "tok = asc ''XIDP-1234567890''"
  define bad where "bad = AList.update f_name (PStr (1 # asc ''bolt'')) (bolt_row 4)"
  define st1 where
    "st1 = st0\<lparr> seen_rows := insert (row_sig dec_float tok (bolt_row 3)) (seen_rows st0),
                ws := ws st0 @ [(curr_row st0, ItemRow (item_cells OrderProcessor_init 0 (bolt_row 3)))],
                curr_row := curr_row st0 + 1 \<rparr>"
  define files where "files = [asc ''a.xlsx'', asc ''b.xlsx'']"
  note T = export_skips_seen_keys[where X = plain_sheet and L = dec_float
      and self = OrderProcessor_init and iterrows = "\<lambda>rows. rows" and io = io_bolt
      and abort = "\<lambda>idx. False" and files = files]
  have h1: "row_sig dec_float tok (bolt_row 3) \<notin> seen_rows st0"
    by (simp add: st0_def run_start_def)
  have ok1: "cells_ok plain_sheet (curr_row st0) 1 (item_cells OrderProcessor_init 0 (bolt_row 3))"
    by (simp add: st0_def sheet_eval)
  from T[where ono' = tok and row' = "bolt_row 3" and st' = st0 and n' = 0] h1 ok1
  have w1: "write_record plain_sheet dec_float OrderProcessor_init tok (st0, 0) (bolt_row 3) =
        Inr (st1, 1)"
    unfolding st1_def by simp
  have len1: "length (item_rows (ws st1)) = 1"
    by (simp add: st1_def st0_def run_start_def)
  have "row_sig dec_float tok (bolt_row 4) = row_sig dec_float tok (bolt_row 3)"
    using T[where ono_a = tok and ono_b = tok and row_a = "bolt_row 4" and row_b = "bolt_row 3"]
    by (simp add: dict_get_def bolt_row_def fdefs)
  then have h2: "row_sig dec_float tok (bolt_row 4) \<in> seen_rows st1"
    by (simp add: st1_def)
  from T[where ono = tok and row = "bolt_row 4" and st = st1 and n = 1] h2
  have w2: "write_record plain_sheet dec_float OrderProcessor_init tok (st1, 1) (bolt_row 4) =
        Inr (st1, 1)"
    by blast
  have h3: "row_sig dec_float tok bad \<notin> seen_rows st1"
    by (simp add: st1_def st0_def bad_def sheet_eval update_conv')
  have ok3: "\<not> cells_ok plain_sheet (curr_row st1) 1 (item_cells OrderProcessor_init 1 bad)"
    by (simp add: st1_def st0_def bad_def sheet_eval update_conv')
  from T[where ono' = tok and row' = bad and st' = st1 and n' = 1] h3 ok3
  have w3: "write_record plain_sheet dec_float OrderProcessor_init tok (st1, 1) bad = Inl SheetError"
    by simp
  have acc: "list_all (sheet_takes plain_sheet)
     (batch_values dec_float (\<lambda>rows. rows) io_bolt OrderProcessor_init (\<lambda>idx. False) files)"
    by (simp add: files_def batch_values_def section_values_def record_values_def
          sheet_takes_def parse_io_bolt sheet_eval)
  have ints: "\<forall>k. sheet_takes plain_sheet (PInt k :: rat pyval)"
    by (simp add: sheet_takes_def plain_sheet_def)
  have sv: "\<forall>sheet. wb_save (plain_sheet :: rat openpyxl) sheet"
    by (simp add: plain_sheet_def)
  from T acc ints sv
  have "(\<exists>final'. run plain_sheet dec_float (\<lambda>rows. rows) io_bolt OrderProcessor_init
            (\<lambda>idx. False) files = Saved final') \<or>
        run plain_sheet dec_float (\<lambda>rows. rows) io_bolt OrderProcessor_init
            (\<lambda>idx. False) files = NothingToSave"
    by blast
  moreover have "run plain_sheet dec_float (\<lambda>rows. rows) io_bolt OrderProcessor_init
            (\<lambda>idx. False) files \<noteq> NothingToSave"
    by (simp add: files_def parse_io_bolt sheet_eval)
  ultimately obtain final where
    r: "run plain_sheet dec_float (\<lambda>rows. rows) io_bolt OrderProcessor_init
            (\<lambda>idx. False) files = Saved final"
    by blast
  from T[where final = final] r
  have k: "seen_rows final =
        batch_keys dec_float (\<lambda>rows. rows) io_bolt OrderProcessor_init (\<lambda>idx. False) files"
    and l: "length (item_rows (ws final)) =
        card (batch_keys dec_float (\<lambda>rows. rows) io_bolt OrderProcessor_init (\<lambda>idx. False) files)"
    by blast+
  have n2: "length (section_records (\<lambda>rows. rows)
      (batch_sections dec_float io_bolt OrderProcessor_init (\<lambda>idx. False) 0 files)) = 2"
    by (simp add: files_def section_records_def parse_io_bolt)
  have c1: "card (batch_keys dec_float (\<lambda>rows. rows) io_bolt OrderProcessor_init
      (\<lambda>idx. False) files) = 1"
    by (simp add: files_def batch_keys_def section_records_def parse_io_bolt)
  from l c1 have l1: "length (item_rows (ws final)) = 1" by simp
  from w1 len1 h2 w2 w3 have p1: "\<exists>st1.
       write_record plain_sheet dec_float OrderProcessor_init tok (st0, 0) (bolt_row 3) =
         Inr (st1, 1) \<and>
       length (item_rows (ws st1)) = 1 \<and>
       row_sig dec_float tok (bolt_row 4) \<in> seen_rows st1 \<and>
       write_record plain_sheet dec_float OrderProcessor_init tok (st1, 1) (bolt_row 4) =
         Inr (st1, 1) \<and>
       write_record plain_sheet dec_float OrderProcessor_init tok (st1, 1) bad = Inl SheetError"
    by blast
  from r k l1 c1 have p2: "\<exists>final.
       run plain_sheet dec_float (\<lambda>rows. rows) io_bolt OrderProcessor_init (\<lambda>idx. False) files =
         Saved final \<and>
       seen_rows final =
         batch_keys dec_float (\<lambda>rows. rows) io_bolt OrderProcessor_init (\<lambda>idx. False) files \<and>
       length (item_rows (ws final)) = 1 \<and>
       card (batch_keys dec_float (\<lambda>rows. rows) io_bolt OrderProcessor_init (\<lambda>idx. False)
         files) = 1"
    by blast
  from p1 acc n2 p2 show ?thesis
    unfolding st0_def tok_def bad_def files_def by blast
qed

text \<open>
  A run over a file whose item name holds the control character U+0001: the sheet
  refuses the cell, and the run ends with an exception and saves nothing.
\<close>

theorem export_control_character_fails:
  "run plain_sheet dec_float (\<lambda>rows. rows) io_control OrderProcessor_init (\<lambda>idx. False)
     [asc ''a.xlsx''] = Failed SheetError"
  by (simp add: parse_io_control sheet_eval)

end
